theory Spec2Isabelle
  imports Main "HOL-Library.Multiset" "HOL-Library.Product_Lexorder" "HOL-Library.List_Lexorder"
    "HOL-Library.Char_ord"
begin

section \<open>The IR importer of rs\_bindings\_from\_cc\<close>

text \<open>
  A shallow embedding of \<^verbatim>\<open>rs_bindings_from_cc/importer.cc\<close>. The C++ frontend is an
  opaque collaborator of the importer, so every declaration and every type is modelled by
  the answers the frontend gives to the queries the importer makes on it; the importer's
  own control flow is translated function by function. A failed \<^verbatim>\<open>CHECK\<close> and
  \<^verbatim>\<open>LOG(FATAL)\<close> end the process: they are the \<open>Inl\<close> results of the model.
\<close>

subsection \<open>Strings\<close>

definition quoted :: "string \<Rightarrow> string" where
  "quoted s = CHR 0x27 # s @ [CHR 0x27]"

definition digit_char :: "nat \<Rightarrow> char" where
  "digit_char d = ''0123456789'' ! d"

fun decimal :: "nat \<Rightarrow> string" where
  "decimal n = (if n < 10 then [digit_char n] else decimal (n div 10) @ [digit_char (n mod 10)])"

declare decimal.simps [simp del]

definition strip_dot_slash :: "string \<Rightarrow> string" where
  "strip_dot_slash filename = (if take 2 filename = ''./'' then drop 2 filename else filename)"

subsection \<open>Process aborts and status values\<close>

datatype fatal = CheckFailed string | LogFatal string | NullDereference string

datatype Status = UnimplementedError (message: string) (type_payload: "string option")

datatype 'a StatusOr = Ok 'a | NotOk Status

subsection \<open>The well-known types\<close>

definition kWellKnownTypes :: "(string \<times> string) list" where
  "kWellKnownTypes =
    [(''ptrdiff_t'', ''isize''),
     (''intptr_t'', ''isize''),
     (''size_t'', ''usize''),
     (''uintptr_t'', ''usize''),
     (''std::ptrdiff_t'', ''isize''),
     (''std::intptr_t'', ''isize''),
     (''std::size_t'', ''usize''),
     (''std::uintptr_t'', ''usize''),
     (''int8_t'', ''i8''),
     (''int16_t'', ''i16''),
     (''int32_t'', ''i32''),
     (''int64_t'', ''i64''),
     (''std::int8_t'', ''i8''),
     (''std::int16_t'', ''i16''),
     (''std::int32_t'', ''i32''),
     (''std::int64_t'', ''i64''),
     (''uint8_t'', ''u8''),
     (''uint16_t'', ''u16''),
     (''uint32_t'', ''u32''),
     (''uint64_t'', ''u64''),
     (''std::uint8_t'', ''u8''),
     (''std::uint16_t'', ''u16''),
     (''std::uint32_t'', ''u32''),
     (''std::uint64_t'', ''u64''),
     (''char16_t'', ''u16''),
     (''char32_t'', ''u32''),
     (''wchar_t'', ''i32'')]"

definition well_known_find :: "string \<Rightarrow> string option" where
  "well_known_find type_string = map_of kWellKnownTypes type_string"

definition well_known_contains :: "string \<Rightarrow> bool" where
  "well_known_contains type_string = (well_known_find type_string \<noteq> None)"

subsection \<open>The IR\<close>

type_synonym DeclId = nat
type_synonym LifetimeId = nat
type_synonym BlazeLabel = string

text \<open>
  Modelled from the spec: \<^verbatim>\<open>MappedType\<close> and its factory functions are declared in
  \<^verbatim>\<open>ir.h\<close>, which is not among the sources. The spec (section 3) gives the variants
  \<open>Void\<close>, \<open>Simple\<close>, \<open>PointerTo\<close>, \<open>LValueReferenceTo\<close> and \<open>WithDeclIds\<close> and an
  \<open>is_const\<close> flag on the C++ side. The arguments are in the order of the calls in
  \<^verbatim>\<open>importer.cc\<close>: the target-language name first, the C++ spelling second. A factory
  function returns a type that is not const; \<^verbatim>\<open>ConvertType\<close> sets the flag afterwards.
\<close>

datatype MappedType =
    VoidType (is_const: bool)
  | SimpleType (rs_name: string) (cc_name: string) (is_const: bool)
  | PointerType (pointee: MappedType) (lifetime: "LifetimeId option") (nullable: bool)
      (is_const: bool)
  | LValueReferenceType (pointee: MappedType) (lifetime: "LifetimeId option") (is_const: bool)
  | DeclIdsType (rs_ident: string) (rs_decl_id: DeclId) (cc_ident: string) (cc_decl_id: DeclId)
      (is_const: bool)

definition Void :: MappedType where
  "Void = VoidType False"

definition Simple :: "string \<Rightarrow> string \<Rightarrow> MappedType" where
  "Simple rs cc = SimpleType rs cc False"

definition PointerTo :: "MappedType \<Rightarrow> LifetimeId option \<Rightarrow> bool \<Rightarrow> MappedType" where
  "PointerTo pointee_type lt nl = PointerType pointee_type lt nl False"

definition LValueReferenceTo :: "MappedType \<Rightarrow> LifetimeId option \<Rightarrow> MappedType" where
  "LValueReferenceTo pointee_type lt = LValueReferenceType pointee_type lt False"

definition WithDeclIds :: "string \<Rightarrow> DeclId \<Rightarrow> string \<Rightarrow> DeclId \<Rightarrow> MappedType" where
  "WithDeclIds rs rs_id cc cc_id = DeclIdsType rs rs_id cc cc_id False"

fun set_is_const :: "bool \<Rightarrow> MappedType \<Rightarrow> MappedType" where
  "set_is_const c (VoidType _) = VoidType c"
| "set_is_const c (SimpleType rs cc _) = SimpleType rs cc c"
| "set_is_const c (PointerType p lt nl _) = PointerType p lt nl c"
| "set_is_const c (LValueReferenceType p lt _) = LValueReferenceType p lt c"
| "set_is_const c (DeclIdsType rs rs_id cc cc_id _) = DeclIdsType rs rs_id cc cc_id c"

text \<open>The lifetime ids that occur in a mapped type, outermost first.\<close>

fun type_lifetimes :: "MappedType \<Rightarrow> LifetimeId list" where
  "type_lifetimes (PointerType p lt _ _) = (case lt of None \<Rightarrow> [] | Some l \<Rightarrow> [l]) @ type_lifetimes p"
| "type_lifetimes (LValueReferenceType p lt _) = (case lt of None \<Rightarrow> [] | Some l \<Rightarrow> [l]) @ type_lifetimes p"
| "type_lifetimes _ = []"

subsection \<open>Names\<close>

datatype DeclarationName =
    Identifier string | CXXConstructorName | CXXDestructorName | OtherDeclarationName

datatype UnqualifiedIdentifier = Ident string | kConstructor | kDestructor

text \<open>
  A named declaration as the name resolver sees it: its address, the address of its
  canonical declaration, its declaration name and, for a \<^verbatim>\<open>ParmVarDecl\<close>, its function
  scope index.
\<close>

record named_decl =
  nd_addr :: nat
  nd_canonical :: nat
  nd_decl_name :: DeclarationName
  nd_param_index :: "nat option"

definition GenerateDeclId :: "named_decl \<Rightarrow> DeclId" where
  "GenerateDeclId d = nd_canonical d"

definition GetTranslatedName :: "named_decl \<Rightarrow> UnqualifiedIdentifier option" where
  "GetTranslatedName d =
    (case nd_decl_name d of
       Identifier nm \<Rightarrow>
         (if nm = [] then
            (case nd_param_index d of
               Some param_pos \<Rightarrow> Some (Ident (''__param_'' @ decimal param_pos))
             | None \<Rightarrow> None)
          else Some (Ident nm))
     | CXXConstructorName \<Rightarrow> Some kConstructor
     | CXXDestructorName \<Rightarrow> Some kDestructor
     | OtherDeclarationName \<Rightarrow> None)"

text \<open>
  Modelled from the spec: \<^verbatim>\<open>GetTranslatedIdentifier\<close> is defined in \<^verbatim>\<open>importer.h\<close>,
  which is not among the sources. By the spec (section 4.7) it is the translated name when
  that is an identifier, and nothing otherwise.
\<close>

definition GetTranslatedIdentifier :: "named_decl \<Rightarrow> string option" where
  "GetTranslatedIdentifier d =
    (case GetTranslatedName d of Some (Ident nm) \<Rightarrow> Some nm | _ \<Rightarrow> None)"

subsection \<open>Types of the frontend\<close>

datatype BuiltinKind = Bool | Float | Double | VoidKind | OtherBuiltin

record builtin_type =
  getKind :: BuiltinKind
  isIntegerType :: bool
  isSignedInteger :: bool
  getTypeSize :: nat

text \<open>
  A qualified type is the tuple of the answers to the queries of \<^verbatim>\<open>ConvertType\<close> and
  \<^verbatim>\<open>ImportFunction\<close>: the spelling without and with qualifiers, the const qualifier,
  and the results of \<^verbatim>\<open>getAs<PointerType>\<close>, \<^verbatim>\<open>getAs<LValueReferenceType>\<close>,
  \<^verbatim>\<open>getAsAdjusted<BuiltinType>\<close>, \<^verbatim>\<open>getAsAdjusted<TagType>\<close>,
  \<^verbatim>\<open>getAsAdjusted<TypedefType>\<close> and of \<^verbatim>\<open>dyn_cast<RecordType>\<close> (with
  \<^verbatim>\<open>canPassInRegisters\<close> of the record found).
\<close>

datatype QualType = QualType
  (unqualified_string: string)
  (as_string: string)
  (isConstQualified: bool)
  (as_pointer: "QualType option")
  (as_lvalue_reference: "QualType option")
  (as_builtin: "builtin_type option")
  (as_tag: "named_decl option")
  (as_typedef: "named_decl option")
  (as_record_canPassInRegisters: "bool option")

subsection \<open>The type mapper\<close>

type_synonym TypeLifetimes = "LifetimeId list"

text \<open>
  The lifetime of one pointer or reference level: with lifetimes present the stack must
  not be empty (a \<^verbatim>\<open>CHECK\<close>), its last element is taken and removed.
\<close>

definition pop_lifetime ::
  "TypeLifetimes option \<Rightarrow> fatal + (LifetimeId option \<times> TypeLifetimes option)" where
  "pop_lifetime lifetimes =
    (case lifetimes of
       None \<Rightarrow> Inr (None, None)
     | Some ls \<Rightarrow>
         (if ls = [] then Inl (CheckFailed ''!lifetimes->empty()'')
          else Inr (Some (last ls), Some (butlast ls))))"

definition convert_builtin :: "string \<Rightarrow> builtin_type \<Rightarrow> MappedType option" where
  "convert_builtin type_string b =
    (case getKind b of
       Bool \<Rightarrow> Some (Simple ''bool'' ''bool'')
     | Float \<Rightarrow> Some (Simple ''f32'' ''float'')
     | Double \<Rightarrow> Some (Simple ''f64'' ''double'')
     | VoidKind \<Rightarrow> Some Void
     | OtherBuiltin \<Rightarrow>
         (if isIntegerType b then
            (let size = getTypeSize b in
             if size = 8 \<or> size = 16 \<or> size = 32 \<or> size = 64 then
               Some (Simple ((if isSignedInteger b then ''i'' else ''u'') @ decimal size)
                            type_string)
             else None)
          else None))"

definition convert_known_decl :: "nat set \<Rightarrow> named_decl \<Rightarrow> MappedType option" where
  "convert_known_decl known d =
    (if nd_addr d \<in> known then
       (case GetTranslatedIdentifier d of
          Some ident \<Rightarrow> Some (WithDeclIds ident (GenerateDeclId d) ident (GenerateDeclId d))
        | None \<Rightarrow> None)
     else None)"

definition finish_type :: "string \<Rightarrow> bool \<Rightarrow> MappedType option \<Rightarrow> MappedType StatusOr" where
  "finish_type type_string is_c t =
    (case t of
       None \<Rightarrow>
         NotOk (UnimplementedError (''Unsupported type '' @ quoted type_string)
                  (Some type_string))
     | Some ty \<Rightarrow> Ok (set_is_const is_c ty))"

fun ConvertType ::
  "nat set \<Rightarrow> QualType \<Rightarrow> TypeLifetimes option \<Rightarrow> bool \<Rightarrow> fatal + MappedType StatusOr" where
  "ConvertType known (QualType type_string qs is_c ptr lref blt tag tdef rec)
     lifetimes nl =
    (case well_known_find type_string of
       Some rs \<Rightarrow> Inr (finish_type type_string is_c (Some (Simple rs type_string)))
     | None \<Rightarrow>
       (case ptr of
          Some pointee_qt \<Rightarrow>
            (case pop_lifetime lifetimes of
               Inl f \<Rightarrow> Inl f
             | Inr (lt, lifetimes') \<Rightarrow>
                 (case ConvertType known pointee_qt lifetimes' True of
                    Inl f \<Rightarrow> Inl f
                  | Inr (Ok pointee_type) \<Rightarrow>
                      Inr (finish_type type_string is_c (Some (PointerTo pointee_type lt nl)))
                  | Inr (NotOk _) \<Rightarrow> Inr (finish_type type_string is_c None)))
        | None \<Rightarrow>
          (case lref of
             Some pointee_qt \<Rightarrow>
               (case pop_lifetime lifetimes of
                  Inl f \<Rightarrow> Inl f
                | Inr (lt, lifetimes') \<Rightarrow>
                    (case ConvertType known pointee_qt lifetimes' True of
                       Inl f \<Rightarrow> Inl f
                     | Inr (Ok pointee_type) \<Rightarrow>
                         Inr (finish_type type_string is_c
                                (Some (LValueReferenceTo pointee_type lt)))
                     | Inr (NotOk _) \<Rightarrow> Inr (finish_type type_string is_c None)))
           | None \<Rightarrow>
             (case blt of
                Some b \<Rightarrow> Inr (finish_type type_string is_c (convert_builtin type_string b))
              | None \<Rightarrow>
                (case tag of
                   Some tag_decl \<Rightarrow>
                     Inr (finish_type type_string is_c
                            (convert_known_decl known tag_decl))
                 | None \<Rightarrow>
                   (case tdef of
                      Some typedef_name_decl \<Rightarrow>
                        Inr (finish_type type_string is_c
                               (convert_known_decl known typedef_name_decl))
                    | None \<Rightarrow> Inr (finish_type type_string is_c None)))))))"

subsection \<open>Declarations of the frontend\<close>

text \<open>
  Source locations are used in two ways. The owner resolver walks the include stack from a
  location: there a location is invalid, or it carries the answers of the source manager
  for its file (\<^verbatim>\<open>isInSystemHeader\<close>, \<^verbatim>\<open>getNonBuiltinFilenameForID\<close>) and the location
  its file was included from (\<^verbatim>\<open>getIncludeLoc\<close>). The sorting of the items compares
  locations in translation unit order: there a location is its raw encoding, a number
  that is \<open>0\<close> for the invalid location and grows in translation unit order.
\<close>

datatype SourceLocation =
    InvalidLocation
  | ValidLocation (isInSystemHeader: bool) (getNonBuiltinFilename: "string option")
      (getIncludeLoc: SourceLocation)

type_synonym RawLocation = nat

record SourceRange =
  getBegin :: RawLocation
  getEnd :: RawLocation




record SourceLoc =
  sl_filename :: string
  sl_line :: nat
  sl_column :: nat

record RawComment =
  rc_begin_loc :: RawLocation
  rc_source_range :: SourceRange
  rc_formatted_text :: string

datatype DeclContextKind =
    TranslationUnitContext | NamespaceContext | RecordContext | FunctionOrMethodContext
  | OtherContext

definition isNamespace :: "DeclContextKind \<Rightarrow> bool" where
  "isNamespace c = (c = NamespaceContext)"

definition isRecord :: "DeclContextKind \<Rightarrow> bool" where
  "isRecord c = (c = RecordContext)"

definition isFunctionOrMethod :: "DeclContextKind \<Rightarrow> bool" where
  "isFunctionOrMethod c = (c = FunctionOrMethodContext)"

text \<open>
  What every declaration answers: its address, its declaration context (possibly null),
  \<^verbatim>\<open>getLocation\<close>, \<^verbatim>\<open>getSourceRange\<close>, the file, line and column of
  \<^verbatim>\<open>getBeginLoc\<close>, the qualified name of a \<^verbatim>\<open>NamedDecl\<close>, its raw comment, and the
  text \<^verbatim>\<open>GetComment\<close> computes from that comment (the formatted text without the
  lines of lint directives). The cleaning of the text itself is not modelled: no property
  below depends on it.
\<close>

record decl_common =
  dc_addr :: nat
  dc_decl_context :: "DeclContextKind option"
  dc_location :: SourceLocation
  dc_source_range :: SourceRange
  dc_begin_filename :: string
  dc_begin_line :: nat
  dc_begin_column :: nat
  dc_qualified_name :: "string option"
  dc_raw_comment :: "RawComment option"
  dc_doc_comment :: "string option"

datatype ClangAccessSpecifier = AS_public | AS_protected | AS_private | AS_none

datatype RefQualifierKind = RQ_None | RQ_LValue | RQ_RValue

record parm_var_decl =
  pv_type :: QualType
  pv_named :: named_decl

record cxx_constructor_decl =
  ctor_isExplicit :: bool
  ctor_isDefaultConstructor :: bool
  ctor_isCopyConstructor :: bool
  ctor_isMoveConstructor :: bool

text \<open>
  A method answers with the address of \<^verbatim>\<open>getParent()->getCanonicalDecl()\<close>, which is
  also the \<^verbatim>\<open>DeclId\<close> of its record, and with the properties of a constructor when it
  is one.
\<close>

record cxx_method_decl =
  md_parent_canonical :: nat
  md_isInstance :: bool
  md_this_type :: QualType
  md_access :: ClangAccessSpecifier
  md_ref_qualifier :: RefQualifierKind
  md_isConst :: bool
  md_isVirtual :: bool
  md_constructor :: "cxx_constructor_decl option"
  md_isDestructor :: bool

text \<open>
  The result of the lifetime oracle \<^verbatim>\<open>GetLifetimeAnnotations\<close> for a function: a
  failure (\<open>None\<close>) or the lifetimes of \<open>this\<close>, of each parameter and of the return
  type; and the symbol table it fills. A \<^verbatim>\<open>devtools_rust::Lifetime\<close> is identified
  with its \<^verbatim>\<open>Id()\<close>. The oracle is an external collaborator (section 6 of the
  specification): its \<^verbatim>\<open>llvm::Expected\<close> is read as the optional value that
  \<^verbatim>\<open>if (lifetimes)\<close> tests. What the LLVM library does with an error that is never
  taken out of it depends on how LLVM is built and is no part of the importer.
\<close>

record function_lifetimes =
  this_lifetimes :: TypeLifetimes
  param_lifetimes :: "TypeLifetimes list"
  return_lifetimes :: TypeLifetimes

record function_decl =
  fd_named :: named_decl
  fd_isDeleted :: bool
  fd_isTemplated :: bool
  fd_lifetimes :: "function_lifetimes option"
  fd_lifetime_symbol_table :: "(LifetimeId \<times> string) list"
  fd_method :: "cxx_method_decl option"
  fd_params :: "parm_var_decl list"
  fd_return_type :: QualType
  fd_mangled_name :: string
  fd_isInlined :: bool

record field_decl =
  fld_type :: QualType
  fld_access :: ClangAccessSpecifier
  fld_named :: named_decl
  fld_name_as_string :: string
  fld_doc_comment :: "string option"
  fld_offset :: nat

record cxx_record_decl =
  cxx_getDescribedClassTemplate :: bool
  cxx_isClass :: bool
  cxx_isEffectivelyFinal :: bool

text \<open>
  Modelled from the spec: the special member function summaries are computed by helpers of
  \<^verbatim>\<open>ast_convert.h\<close>, which is not among the sources; the spec (section 4.3) names the
  four outcomes.
\<close>

datatype SpecialMemberFunc = Trivial | NonTrivial | Deleted | NotDeclared

text \<open>The definition \<^verbatim>\<open>getDefinition\<close> returns for a record, a declaration of its own.\<close>

record record_definition =
  def_common :: decl_common
  def_named :: named_decl
  def_isInvalidDecl :: bool
  def_isCompleteDefinition :: bool
  def_cxx :: "cxx_record_decl option"
  def_isClassTemplateSpecialization :: bool
  def_fields :: "field_decl list"
  def_layout_size :: nat
  def_layout_alignment :: nat
  def_copy_constructor :: SpecialMemberFunc
  def_move_constructor :: SpecialMemberFunc
  def_destructor :: SpecialMemberFunc
  def_canPassInRegisters :: bool

record record_decl =
  rd_isInjectedClassName :: bool
  rd_isUnion :: bool
  rd_getDefinition :: "record_definition option"

record typedef_name_decl =
  td_named :: named_decl
  td_typedef_type_string :: string
  td_underlying_type :: QualType

datatype DeclKind =
    FunctionDecl function_decl
  | FunctionTemplateDecl decl_common function_decl
  | RecordDecl record_decl
  | TypedefNameDecl typedef_name_decl
  | ClassTemplateDecl
  | NamespaceDecl
  | OtherDecl

text \<open>
  A function template carries its templated declaration (\<^verbatim>\<open>getTemplatedDecl\<close>), a
  declaration of its own.
\<close>

text \<open>
  A declaration: what it answers, its kind, its canonical declaration when that is another
  declaration, and the declarations of its declaration context.
\<close>

datatype Decl = Decl (common: decl_common) (kind: DeclKind) (canonical: "Decl option")
  (decls: "Decl list")

definition getCanonicalDecl :: "Decl \<Rightarrow> Decl" where
  "getCanonicalDecl d = (case canonical d of None \<Rightarrow> d | Some c \<Rightarrow> c)"

definition decl_addr :: "Decl \<Rightarrow> nat" where
  "decl_addr d = dc_addr (common d)"

subsection \<open>The items of the IR\<close>

record FuncParam =
  fp_type :: MappedType
  fp_identifier :: string

record Lifetime =
  lt_name :: string
  lt_id :: LifetimeId

datatype ReferenceQualification = kLValue | kRValue | kUnqualified

record InstanceMethodMetadata =
  imm_reference :: ReferenceQualification
  imm_is_const :: bool
  imm_is_virtual :: bool
  imm_is_explicit_ctor :: bool

record MemberFuncMetadata =
  mfm_record_id :: DeclId
  mfm_instance_method_metadata :: "InstanceMethodMetadata option"

record Func =
  func_name :: UnqualifiedIdentifier
  func_owning_target :: BlazeLabel
  func_doc_comment :: "string option"
  func_mangled_name :: string
  func_return_type :: MappedType
  func_params :: "FuncParam list"
  func_lifetime_params :: "Lifetime list"
  func_is_inline :: bool
  func_member_func_metadata :: "MemberFuncMetadata option"
  func_source_loc :: SourceLoc

datatype AccessSpecifier = kPublic | kProtected | kPrivate

record Field =
  field_identifier :: string
  field_doc_comment :: "string option"
  field_type :: MappedType
  field_access :: AccessSpecifier
  field_offset :: nat

record Record =
  record_identifier :: string
  record_id :: DeclId
  record_owning_target :: BlazeLabel
  record_doc_comment :: "string option"
  record_fields :: "Field list"
  record_size :: nat
  record_alignment :: nat
  record_copy_constructor :: SpecialMemberFunc
  record_move_constructor :: SpecialMemberFunc
  record_destructor :: SpecialMemberFunc
  record_is_trivial_abi :: bool
  record_is_final :: bool

record TypeAlias =
  alias_identifier :: string
  alias_id :: DeclId
  alias_owning_target :: BlazeLabel
  alias_underlying_type :: MappedType

record UnsupportedItem =
  unsupported_name :: string
  unsupported_message :: string
  unsupported_source_loc :: SourceLoc

datatype Item =
    FuncItem Func
  | RecordItem Record
  | TypeAliasItem TypeAlias
  | UnsupportedItemItem UnsupportedItem
  | CommentItem string

text \<open>
  Modelled from the spec: \<^verbatim>\<open>LookupResult\<close> is declared in \<^verbatim>\<open>importer.h\<close>, which is
  not among the sources. A lookup result is an optional item and the error reasons
  (section 4: an IR item, an unsupported-reason string or set, or a silent skip); its
  four constructors are the four ways \<^verbatim>\<open>importer.cc\<close> builds one.
\<close>

record LookupResult =
  item :: "Item option"
  errors :: "string list"

definition LookupResult_none :: LookupResult where
  "LookupResult_none = \<lparr>item = None, errors = []\<rparr>"

definition LookupResult_item :: "Item \<Rightarrow> LookupResult" where
  "LookupResult_item i = \<lparr>item = Some i, errors = []\<rparr>"

definition LookupResult_error :: "string \<Rightarrow> LookupResult" where
  "LookupResult_error e = \<lparr>item = None, errors = [e]\<rparr>"

definition LookupResult_errors :: "string list \<Rightarrow> LookupResult" where
  "LookupResult_errors es = \<lparr>item = None, errors = es\<rparr>"

subsection \<open>The invocation and the importer's state\<close>

text \<open>
  Modelled from the spec: the \<^verbatim>\<open>Invocation\<close> class is not among the sources. It holds
  the current target, the header to target map that \<^verbatim>\<open>header_target\<close> looks up
  (section 6), and the entry headers, here each with the comments
  \<^verbatim>\<open>getCommentsInFile\<close> finds in it.
\<close>

record invocation =
  current_target :: BlazeLabel
  header_targets :: "(string \<times> BlazeLabel) list"
  entry_header_comments :: "RawComment list list"

definition header_target :: "invocation \<Rightarrow> string \<Rightarrow> BlazeLabel option" where
  "header_target ivc header = map_of (header_targets ivc) header"

text \<open>
  The two members of the importer that change during a run, \<^verbatim>\<open>lookup_cache_\<close> and
  \<^verbatim>\<open>known_type_decls_\<close>; a declaration in the set is its address.
\<close>

record importer =
  lookup_cache :: "(Decl \<times> LookupResult) list"
  known_type_decls :: "nat set"

subsection \<open>The owner resolver\<close>

fun GetOwningTarget :: "invocation \<Rightarrow> SourceLocation \<Rightarrow> BlazeLabel" where
  "GetOwningTarget ivc InvalidLocation = ''//:virtual_clang_resource_dir_target''"
| "GetOwningTarget ivc (ValidLocation in_system_header filename include_loc) =
    (if in_system_header then ''//:virtual_clang_resource_dir_target''
     else
       (case filename of
          None \<Rightarrow> ''//:builtin''
        | Some f \<Rightarrow>
            (case header_target ivc (strip_dot_slash f) of
               Some t \<Rightarrow> t
             | None \<Rightarrow> GetOwningTarget ivc include_loc)))"

definition IsFromCurrentTarget :: "invocation \<Rightarrow> decl_common \<Rightarrow> bool" where
  "IsFromCurrentTarget ivc d = (current_target ivc = GetOwningTarget ivc (dc_location d))"

definition GetComment :: "decl_common \<Rightarrow> string option" where
  "GetComment d = dc_doc_comment d"

definition ConvertSourceLocation :: "decl_common \<Rightarrow> SourceLoc" where
  "ConvertSourceLocation d =
    \<lparr>sl_filename = strip_dot_slash (dc_begin_filename d),
     sl_line = dc_begin_line d,
     sl_column = dc_begin_column d\<rparr>"

subsection \<open>The field importer\<close>

text \<open>
  Modelled from the spec: \<^verbatim>\<open>TranslateAccessSpecifier\<close> is a helper of
  \<^verbatim>\<open>ast_convert.h\<close>, which is not among the sources; the access of a field is public,
  protected or private (section 3), and no IR access stands for \<^verbatim>\<open>AS_none\<close>.
\<close>

definition TranslateAccessSpecifier :: "ClangAccessSpecifier \<Rightarrow> fatal + AccessSpecifier" where
  "TranslateAccessSpecifier a =
    (case a of
       AS_public \<Rightarrow> Inr kPublic
     | AS_protected \<Rightarrow> Inr kProtected
     | AS_private \<Rightarrow> Inr kPrivate
     | AS_none \<Rightarrow> Inl (LogFatal ''TranslateAccessSpecifier: AS_none''))"

fun ImportFields_loop ::
  "nat set \<Rightarrow> ClangAccessSpecifier \<Rightarrow> field_decl list \<Rightarrow> Field list \<Rightarrow>
   fatal + Field list StatusOr" where
  "ImportFields_loop known default_access [] flds = Inr (Ok flds)"
| "ImportFields_loop known default_access (fld # rest) flds =
    (case ConvertType known (fld_type fld) None True of
       Inl f \<Rightarrow> Inl f
     | Inr (NotOk _) \<Rightarrow>
         Inr (NotOk (UnimplementedError
           (''Field type '' @ quoted (as_string (fld_type fld)) @ '' is not supported'') None))
     | Inr (Ok ty) \<Rightarrow>
         (let access = (if fld_access fld = AS_none then default_access else fld_access fld) in
          case GetTranslatedIdentifier (fld_named fld) of
            None \<Rightarrow>
              Inr (NotOk (UnimplementedError
                (''Cannot translate name for field '' @ quoted (fld_name_as_string fld)) None))
          | Some field_name \<Rightarrow>
              (case TranslateAccessSpecifier access of
                 Inl f \<Rightarrow> Inl f
               | Inr a \<Rightarrow>
                   ImportFields_loop known default_access rest
                     (flds @
                       [\<lparr>field_identifier = field_name,
                         field_doc_comment = fld_doc_comment fld,
                         field_type = ty,
                         field_access = a,
                         field_offset = fld_offset fld\<rparr>]))))"

definition ImportFields ::
  "nat set \<Rightarrow> record_definition \<Rightarrow> ClangAccessSpecifier \<Rightarrow> fatal + Field list StatusOr" where
  "ImportFields known record_def default_access =
    ImportFields_loop known default_access (def_fields record_def) []"

subsection \<open>The record importer\<close>

text \<open>
  \<^verbatim>\<open>ImportRecord\<close> reads and writes \<^verbatim>\<open>known_type_decls_\<close>: the set is an argument and
  a result. After \<^verbatim>\<open>record_decl = record_decl->getDefinition()\<close> every later use of
  \<^verbatim>\<open>record_decl\<close> is the definition. Forcing the declaration of the implicit members
  changes the frontend only.
\<close>

definition ImportRecord_definition ::
  "invocation \<Rightarrow> record_definition \<Rightarrow> ClangAccessSpecifier \<Rightarrow> bool \<Rightarrow> nat set \<Rightarrow>
   fatal + (LookupResult \<times> nat set)" where
  "ImportRecord_definition ivc record_def default_access is_final known =
    (case GetTranslatedIdentifier (def_named record_def) of
       None \<Rightarrow> Inr (LookupResult_none, known)
     | Some record_name \<Rightarrow>
         (let known1 = insert (dc_addr (def_common record_def)) known in
          case ImportFields known1 record_def default_access of
            Inl f \<Rightarrow> Inl f
          | Inr (NotOk _) \<Rightarrow>
              Inr (LookupResult_error ''Importing field failed'',
                   known1 - {dc_addr (def_common record_def)})
          | Inr (Ok flds) \<Rightarrow>
              Inr (LookupResult_item (RecordItem
                     \<lparr>record_identifier = record_name,
                      record_id = GenerateDeclId (def_named record_def),
                      record_owning_target =
                        GetOwningTarget ivc (dc_location (def_common record_def)),
                      record_doc_comment = GetComment (def_common record_def),
                      record_fields = flds,
                      record_size = def_layout_size record_def,
                      record_alignment = def_layout_alignment record_def,
                      record_copy_constructor = def_copy_constructor record_def,
                      record_move_constructor = def_move_constructor record_def,
                      record_destructor = def_destructor record_def,
                      record_is_trivial_abi = def_canPassInRegisters record_def,
                      record_is_final = is_final\<rparr>),
                   known1)))"

definition ImportRecord ::
  "invocation \<Rightarrow> DeclContextKind \<Rightarrow> record_decl \<Rightarrow> nat set \<Rightarrow>
   fatal + (LookupResult \<times> nat set)" where
  "ImportRecord ivc decl_context record_decl known =
    (if isFunctionOrMethod decl_context then Inr (LookupResult_none, known)
     else if rd_isInjectedClassName record_decl then Inr (LookupResult_none, known)
     else if isRecord decl_context then
       Inr (LookupResult_error ''Nested classes are not supported yet'', known)
     else if rd_isUnion record_decl then
       Inr (LookupResult_error ''Unions are not supported yet'', known)
     else
       (case rd_getDefinition record_decl of
          None \<Rightarrow> Inr (LookupResult_none, known)
        | Some record_def \<Rightarrow>
            (if def_isInvalidDecl record_def \<or> \<not> def_isCompleteDefinition record_def then
               Inr (LookupResult_none, known)
             else
               (case def_cxx record_def of
                  Some cxx_record_decl \<Rightarrow>
                    (if cxx_getDescribedClassTemplate cxx_record_decl \<or>
                        def_isClassTemplateSpecialization record_def then
                       Inr (LookupResult_error ''Class templates are not supported yet'', known)
                     else
                       ImportRecord_definition ivc record_def
                         (if cxx_isClass cxx_record_decl then AS_private else AS_public)
                         (cxx_isEffectivelyFinal cxx_record_decl) known)
                | None \<Rightarrow> ImportRecord_definition ivc record_def AS_public True known))))"

subsection \<open>The typedef importer\<close>

definition ImportTypedefName ::
  "invocation \<Rightarrow> decl_common \<Rightarrow> typedef_name_decl \<Rightarrow> nat set \<Rightarrow>
   fatal + (LookupResult \<times> nat set)" where
  "ImportTypedefName ivc d typedef_name_decl known =
    (if (case dc_decl_context d of Some c \<Rightarrow> isFunctionOrMethod c | None \<Rightarrow> False) then
       Inr (LookupResult_none, known)
     else if (case dc_decl_context d of Some c \<Rightarrow> isRecord c | None \<Rightarrow> False) then
       Inr (LookupResult_error ''Typedefs nested in classes are not supported yet'', known)
     else if well_known_contains (td_typedef_type_string typedef_name_decl) then
       Inr (LookupResult_none, known)
     else
       (case GetTranslatedIdentifier (td_named typedef_name_decl) of
          None \<Rightarrow> Inl (LogFatal ''Couldn't get identifier for TypedefNameDecl'')
        | Some identifier \<Rightarrow>
            (case ConvertType known (td_underlying_type typedef_name_decl) None True of
               Inl f \<Rightarrow> Inl f
             | Inr (Ok underlying_type) \<Rightarrow>
                 Inr (LookupResult_item (TypeAliasItem
                        \<lparr>alias_identifier = identifier,
                         alias_id = GenerateDeclId (td_named typedef_name_decl),
                         alias_owning_target = GetOwningTarget ivc (dc_location d),
                         alias_underlying_type = underlying_type\<rparr>),
                      insert (dc_addr d) known)
             | Inr (NotOk st) \<Rightarrow> Inr (LookupResult_error (message st), known))))"

subsection \<open>The function importer\<close>

text \<open>
  The implicit \<open>this\<close> parameter of a non-static member function: converted with the
  lifetimes of \<open>this\<close> when the oracle succeeded, and with \<open>nullable\<close> false. The
  results are the parameters and the errors so far.
\<close>

definition import_this_param ::
  "nat set \<Rightarrow> cxx_method_decl \<Rightarrow> function_lifetimes option \<Rightarrow>
   fatal + (FuncParam list \<times> string list)" where
  "import_this_param known method_decl lifetimes =
    (case ConvertType known (md_this_type method_decl) (map_option this_lifetimes lifetimes)
            False of
       Inl f \<Rightarrow> Inl f
     | Inr (NotOk st) \<Rightarrow> Inr ([], [message st])
     | Inr (Ok param_type) \<Rightarrow>
         Inr ([\<lparr>fp_type = param_type, fp_identifier = ''__this''\<rparr>], []))"

text \<open>
  The lifetimes of the \<open>i\<close>-th parameter, for every \<open>i\<close>; the \<^verbatim>\<open>CHECK_EQ\<close> before
  the loop makes the two lists equally long when the oracle succeeded.
\<close>

definition param_lifetime_slots ::
  "function_lifetimes option \<Rightarrow> nat \<Rightarrow> TypeLifetimes option list" where
  "param_lifetime_slots lifetimes n =
    (case lifetimes of
       None \<Rightarrow> replicate n None
     | Some l \<Rightarrow> map Some (param_lifetimes l))"

text \<open>The loop over the formal parameters, on the vectors \<open>params\<close> and \<open>errors\<close>.\<close>

fun import_params ::
  "nat set \<Rightarrow> (parm_var_decl \<times> TypeLifetimes option) list \<Rightarrow> FuncParam list \<Rightarrow>
   string list \<Rightarrow> fatal + (FuncParam list \<times> string list)" where
  "import_params known [] params errs = Inr (params, errs)"
| "import_params known ((param, param_lts) # rest) params errs =
    (case ConvertType known (pv_type param) param_lts True of
       Inl f \<Rightarrow> Inl f
     | Inr (NotOk _) \<Rightarrow>
         import_params known rest params
           (errs @ [''Parameter type '' @ quoted (as_string (pv_type param)) @
                    '' is not supported''])
     | Inr (Ok param_type) \<Rightarrow>
         (let errs' =
            (case as_record_canPassInRegisters (pv_type param) of
               Some False \<Rightarrow>
                 errs @ [''Non-trivial_abi type '' @ quoted (as_string (pv_type param)) @
                         '' is not supported by value as a parameter'']
             | _ \<Rightarrow> errs)
          in
          case GetTranslatedIdentifier (pv_named param) of
            None \<Rightarrow> Inl (CheckFailed ''param_name.has_value()'')
          | Some param_name \<Rightarrow>
              import_params known rest
                (params @ [\<lparr>fp_type = param_type, fp_identifier = param_name\<rparr>]) errs'))"

definition return_type_abi_errors :: "QualType \<Rightarrow> string list" where
  "return_type_abi_errors return_qt =
    (case as_record_canPassInRegisters return_qt of
       Some False \<Rightarrow>
         [''Non-trivial_abi type '' @ quoted (as_string return_qt) @
          '' is not supported by value as a return type'']
     | _ \<Rightarrow> [])"

definition return_type_errors :: "QualType \<Rightarrow> MappedType StatusOr \<Rightarrow> string list" where
  "return_type_errors return_qt return_type =
    (case return_type of
       NotOk _ \<Rightarrow> [''Return type '' @ quoted (as_string return_qt) @ '' is not supported'']
     | Ok _ \<Rightarrow> [])"

text \<open>
  The set \<open>all_lifetimes\<close>: the lifetimes of \<open>this\<close> (for a non-static member function),
  of every parameter and of the return type, when the oracle succeeded. The order in which
  a \<^verbatim>\<open>DenseSet\<close> is traversed is not specified; the model traverses the elements in
  the order of their first insertion.
\<close>

definition is_instance_method :: "function_decl \<Rightarrow> bool" where
  "is_instance_method function_decl =
    (case fd_method function_decl of Some m \<Rightarrow> md_isInstance m | None \<Rightarrow> False)"

definition all_lifetimes :: "function_decl \<Rightarrow> LifetimeId list" where
  "all_lifetimes function_decl =
    (case fd_lifetimes function_decl of
       None \<Rightarrow> []
     | Some l \<Rightarrow>
         remdups ((if is_instance_method function_decl then this_lifetimes l else []) @
                  concat (param_lifetimes l) @ return_lifetimes l))"

fun name_lifetimes :: "(LifetimeId \<times> string) list \<Rightarrow> LifetimeId list \<Rightarrow> fatal + Lifetime list" where
  "name_lifetimes symbol_table [] = Inr []"
| "name_lifetimes symbol_table (l # ls) =
    (case map_of symbol_table l of
       None \<Rightarrow> Inl (CheckFailed ''name.has_value()'')
     | Some nm \<Rightarrow>
         (case name_lifetimes symbol_table ls of
            Inl f \<Rightarrow> Inl f
          | Inr rest \<Rightarrow> Inr (\<lparr>lt_name = nm, lt_id = l\<rparr> # rest)))"

definition make_lifetime_params :: "function_decl \<Rightarrow> fatal + Lifetime list" where
  "make_lifetime_params function_decl =
    (case name_lifetimes (fd_lifetime_symbol_table function_decl) (all_lifetimes function_decl) of
       Inl f \<Rightarrow> Inl f
     | Inr ls \<Rightarrow> Inr (sort_key lt_name ls))"

definition make_member_func_metadata :: "cxx_method_decl \<Rightarrow> MemberFuncMetadata" where
  "make_member_func_metadata method_decl =
    \<lparr>mfm_record_id = md_parent_canonical method_decl,
     mfm_instance_method_metadata =
       (if md_isInstance method_decl then
          Some \<lparr>imm_reference =
                  (case md_ref_qualifier method_decl of
                     RQ_LValue \<Rightarrow> kLValue | RQ_RValue \<Rightarrow> kRValue | RQ_None \<Rightarrow> kUnqualified),
                imm_is_const = md_isConst method_decl,
                imm_is_virtual = md_isVirtual method_decl,
                imm_is_explicit_ctor =
                  (case md_constructor method_decl of
                     Some ctor_decl \<Rightarrow> ctor_isExplicit ctor_decl
                   | None \<Rightarrow> False)\<rparr>
        else None)\<rparr>"

text \<open>
  The block for a \<^verbatim>\<open>CXXMethodDecl\<close> after the check of the parent: only a non-static
  member function gets the implicit parameter.
\<close>

definition import_implicit_this ::
  "nat set \<Rightarrow> function_decl \<Rightarrow> fatal + (FuncParam list \<times> string list)" where
  "import_implicit_this known function_decl =
    (case fd_method function_decl of
       Some method_decl \<Rightarrow>
         (if md_isInstance method_decl then
            import_this_param known method_decl (fd_lifetimes function_decl)
          else Inr ([], []))
     | None \<Rightarrow> Inr ([], []))"

text \<open>The access switch: a method that is not public yields no item.\<close>

definition is_non_public_method :: "function_decl \<Rightarrow> bool" where
  "is_non_public_method function_decl =
    (case fd_method function_decl of
       Some method_decl \<Rightarrow> md_access method_decl \<noteq> AS_public
     | None \<Rightarrow> False)"

text \<open>
  The part of \<^verbatim>\<open>ImportFunction\<close> after the check of the parent record: the parameters,
  the return type, the lifetime parameters, the access of a method, the errors, the name.
\<close>

definition ImportFunction_signature ::
  "invocation \<Rightarrow> nat set \<Rightarrow> decl_common \<Rightarrow> function_decl \<Rightarrow> fatal + LookupResult" where
  "ImportFunction_signature ivc known d function_decl =
    (let lifetimes = fd_lifetimes function_decl in
     case import_implicit_this known function_decl of
       Inl f \<Rightarrow> Inl f
     | Inr (params0, errors0) \<Rightarrow>
         (if (case lifetimes of
                Some l \<Rightarrow> length (param_lifetimes l) \<noteq> length (fd_params function_decl)
              | None \<Rightarrow> False) then
            Inl (CheckFailed ''lifetimes->param_lifetimes.size() == function_decl->getNumParams()'')
          else
            (case import_params known
                    (zip (fd_params function_decl)
                       (param_lifetime_slots lifetimes (length (fd_params function_decl))))
                    params0 errors0 of
               Inl f \<Rightarrow> Inl f
             | Inr (params, errors1) \<Rightarrow>
                 (case ConvertType known (fd_return_type function_decl)
                         (map_option return_lifetimes lifetimes) True of
                    Inl f \<Rightarrow> Inl f
                  | Inr return_type \<Rightarrow>
                      (let errors2 =
                         errors1 @ return_type_abi_errors (fd_return_type function_decl) @
                         return_type_errors (fd_return_type function_decl) return_type
                       in
                       case make_lifetime_params function_decl of
                         Inl f \<Rightarrow> Inl f
                       | Inr lifetime_params \<Rightarrow>
                           (if is_non_public_method function_decl then Inr LookupResult_none
                            else if errors2 \<noteq> [] then Inr (LookupResult_errors errors2)
                            else
                              (case return_type of
                                 NotOk _ \<Rightarrow> Inl (CheckFailed ''return_type.ok()'')
                               | Ok rt \<Rightarrow>
                                   (case GetTranslatedName (fd_named function_decl) of
                                      None \<Rightarrow> Inr LookupResult_none
                                    | Some translated_name \<Rightarrow>
                                        Inr (LookupResult_item (FuncItem
                                          \<lparr>func_name = translated_name,
                                           func_owning_target =
                                             GetOwningTarget ivc (dc_location d),
                                           func_doc_comment = GetComment d,
                                           func_mangled_name = fd_mangled_name function_decl,
                                           func_return_type = rt,
                                           func_params = params,
                                           func_lifetime_params = lifetime_params,
                                           func_is_inline = fd_isInlined function_decl,
                                           func_member_func_metadata =
                                             map_option make_member_func_metadata
                                               (fd_method function_decl),
                                           func_source_loc =
                                             ConvertSourceLocation d\<rparr>))))))))))"

text \<open>
  The parent of a method must be known; a function that is not a method has no parent to
  check.
\<close>

definition parent_is_unknown :: "nat set \<Rightarrow> function_decl \<Rightarrow> bool" where
  "parent_is_unknown known function_decl =
    (case fd_method function_decl of
       Some method_decl \<Rightarrow> md_parent_canonical method_decl \<notin> known
     | None \<Rightarrow> False)"

definition ImportFunction ::
  "invocation \<Rightarrow> nat set \<Rightarrow> decl_common \<Rightarrow> function_decl \<Rightarrow> fatal + LookupResult" where
  "ImportFunction ivc known d function_decl =
    (if \<not> IsFromCurrentTarget ivc d then Inr LookupResult_none
     else if fd_isDeleted function_decl then Inr LookupResult_none
     else if fd_isTemplated function_decl then
       Inr (LookupResult_error ''Function templates are not supported yet'')
     else if parent_is_unknown known function_decl then
       Inr (LookupResult_error ''Couldn't import the parent'')
     else ImportFunction_signature ivc known d function_decl)"

subsection \<open>The translation unit walker\<close>

text \<open>
  The memo cache is keyed by the address of the declaration. It is kept as the list of its
  entries, a declaration with its result, in the order of their insertion; as with
  \<^verbatim>\<open>flat_hash_map::insert\<close>, inserting a key that is present changes nothing, and
  \<^verbatim>\<open>operator[]\<close> yields a default-constructed result for a key that is absent.
\<close>

fun cache_find :: "(Decl \<times> LookupResult) list \<Rightarrow> nat \<Rightarrow> LookupResult option" where
  "cache_find [] a = None"
| "cache_find ((d, r) # rest) a = (if decl_addr d = a then Some r else cache_find rest a)"

definition cache_contains :: "(Decl \<times> LookupResult) list \<Rightarrow> Decl \<Rightarrow> bool" where
  "cache_contains cache d = (cache_find cache (decl_addr d) \<noteq> None)"

definition cache_insert ::
  "Decl \<Rightarrow> LookupResult \<Rightarrow> (Decl \<times> LookupResult) list \<Rightarrow> (Decl \<times> LookupResult) list" where
  "cache_insert d r cache = (if cache_contains cache d then cache else cache @ [(d, r)])"

definition cache_at :: "(Decl \<times> LookupResult) list \<Rightarrow> Decl \<Rightarrow> LookupResult" where
  "cache_at cache d =
    (case cache_find cache (decl_addr d) of Some r \<Rightarrow> r | None \<Rightarrow> LookupResult_none)"

text \<open>
  \<^verbatim>\<open>ImportDecl\<close> dereferences the declaration context without a check; for a null
  context the model ends the run.
\<close>

function (sequential)
  LookupDecl :: "invocation \<Rightarrow> Decl \<Rightarrow> importer \<Rightarrow> fatal + (LookupResult \<times> importer)" and
  ImportDecl :: "invocation \<Rightarrow> Decl \<Rightarrow> importer \<Rightarrow> fatal + (LookupResult \<times> importer)" and
  ImportDeclsFromDeclContext :: "invocation \<Rightarrow> Decl list \<Rightarrow> importer \<Rightarrow> fatal + importer"
where
  "LookupDecl ivc d st =
    (if \<not> cache_contains (lookup_cache st) d then
       (case ImportDecl ivc d st of
          Inl f \<Rightarrow> Inl f
        | Inr (result, st1) \<Rightarrow>
            (let st2 = st1\<lparr>lookup_cache := cache_insert d result (lookup_cache st1)\<rparr>
             in Inr (cache_at (lookup_cache st2) d, st2)))
     else Inr (cache_at (lookup_cache st) d, st))"
| "ImportDecl ivc d st =
    (case dc_decl_context (common d) of
       None \<Rightarrow> Inl (NullDereference ''decl->getDeclContext()'')
     | Some decl_context \<Rightarrow>
         (if isNamespace decl_context then
            Inr (LookupResult_error ''Items contained in namespaces are not supported yet'', st)
          else
            (case kind d of
               FunctionDecl function_decl \<Rightarrow>
                 (case ImportFunction ivc (known_type_decls st) (common d) function_decl of
                    Inl f \<Rightarrow> Inl f
                  | Inr result \<Rightarrow> Inr (result, st))
             | FunctionTemplateDecl templated_common templated_decl \<Rightarrow>
                 (case ImportFunction ivc (known_type_decls st) templated_common templated_decl of
                    Inl f \<Rightarrow> Inl f
                  | Inr result \<Rightarrow> Inr (result, st))
             | RecordDecl record_decl \<Rightarrow>
                 (case ImportRecord ivc decl_context record_decl (known_type_decls st) of
                    Inl f \<Rightarrow> Inl f
                  | Inr (result, known) \<Rightarrow>
                      (case ImportDeclsFromDeclContext ivc (decls d)
                              (st\<lparr>known_type_decls := known\<rparr>) of
                         Inl f \<Rightarrow> Inl f
                       | Inr st1 \<Rightarrow> Inr (result, st1)))
             | TypedefNameDecl typedef_name_decl \<Rightarrow>
                 (case ImportTypedefName ivc (common d) typedef_name_decl (known_type_decls st) of
                    Inl f \<Rightarrow> Inl f
                  | Inr (result, known) \<Rightarrow> Inr (result, st\<lparr>known_type_decls := known\<rparr>))
             | ClassTemplateDecl \<Rightarrow>
                 Inr (LookupResult_error ''Class templates are not supported yet'', st)
             | NamespaceDecl \<Rightarrow> Inr (LookupResult_none, st)
             | OtherDecl \<Rightarrow> Inr (LookupResult_none, st))))"
| "ImportDeclsFromDeclContext ivc [] st = Inr st"
| "ImportDeclsFromDeclContext ivc (d # ds) st =
    (case LookupDecl ivc (getCanonicalDecl d) st of
       Inl f \<Rightarrow> Inl f
     | Inr (_, st1) \<Rightarrow>
         (case (if kind d = NamespaceDecl then ImportDeclsFromDeclContext ivc (decls d) st1
                else Inr st1) of
            Inl f \<Rightarrow> Inl f
          | Inr st2 \<Rightarrow> ImportDeclsFromDeclContext ivc ds st2))"
  by pat_completeness auto

lemma size_getCanonicalDecl: "size (getCanonicalDecl d) \<le> size d"
  by (cases d) (auto simp: getCanonicalDecl_def split: option.splits)

lemma size_decls: "size_list size (decls d) < size d"
  by (cases d) auto

termination LookupDecl
proof (relation "measure (\<lambda>x. case x of
          Inl (ivc, d, st) \<Rightarrow> 2 * size d + 1
        | Inr (Inl (ivc, d, st)) \<Rightarrow> 2 * size d
        | Inr (Inr (ivc, ds, st)) \<Rightarrow> 2 * size_list size ds)", goal_cases)
  case 1
  show ?case by simp
next
  case (2 ivc d st)
  show ?case by simp
next
  case (3 ivc d st)
  show ?case using size_decls [of d] by simp
next
  case (4 ivc d ds st)
  show ?case using size_getCanonicalDecl [of d] by simp
next
  case (5 ivc d ds st)
  show ?case using size_decls [of d] by simp
next
  case (6 ivc d ds st)
  show ?case by simp
qed

subsection \<open>Free comments\<close>







subsection \<open>Ordering and emitting the items\<close>












definition new_importer :: importer where
  "new_importer = \<lparr>lookup_cache = [], known_type_decls = {}\<rparr>"

subsection \<open>Definitions that follow the wording of the specification\<close>

text \<open>
  The well-known-type table as the specification's claim C8 lists it, and the entries
  of \<^verbatim>\<open>kWellKnownTypes\<close> that the list leaves out.
\<close>

definition claimed_well_known_types :: "(string \<times> string) list" where
  "claimed_well_known_types =
    [(''ptrdiff_t'', ''isize''), (''intptr_t'', ''isize''),
     (''std::ptrdiff_t'', ''isize''), (''std::intptr_t'', ''isize''),
     (''size_t'', ''usize''), (''uintptr_t'', ''usize''),
     (''std::size_t'', ''usize''), (''std::uintptr_t'', ''usize''),
     (''int8_t'', ''i8''), (''int16_t'', ''i16''), (''int32_t'', ''i32''), (''int64_t'', ''i64''),
     (''uint8_t'', ''u8''), (''uint16_t'', ''u16''), (''uint32_t'', ''u32''),
     (''uint64_t'', ''u64''),
     (''char16_t'', ''u16''), (''char32_t'', ''u32''), (''wchar_t'', ''i32'')]"

definition std_fixed_width_types :: "(string \<times> string) list" where
  "std_fixed_width_types =
    [(''std::int8_t'', ''i8''), (''std::int16_t'', ''i16''), (''std::int32_t'', ''i32''),
     (''std::int64_t'', ''i64''),
     (''std::uint8_t'', ''u8''), (''std::uint16_t'', ''u16''), (''std::uint32_t'', ''u32''),
     (''std::uint64_t'', ''u64'')]"

text \<open>
  A location whose include stack starts with the files \<open>fs\<close>, none of them a system
  header, and continues with the location \<open>upper\<close>.
\<close>

fun include_chain :: "string list \<Rightarrow> SourceLocation \<Rightarrow> SourceLocation" where
  "include_chain [] upper = upper"
| "include_chain (f # fs) upper = ValidLocation False (Some f) (include_chain fs upper)"

definition textual_headers :: "invocation \<Rightarrow> string list \<Rightarrow> bool" where
  "textual_headers ivc fs = list_all (\<lambda>f. header_target ivc (strip_dot_slash f) = None) fs"

text \<open>
  The pointer and reference levels of a type, each of which takes one lifetime from the
  list when the type is converted (section 9): those \<^verbatim>\<open>ConvertType\<close> descends
  through, none for a well-known type, one more than the pointee for a pointer and for an
  lvalue reference.
\<close>

fun pointer_levels :: "QualType \<Rightarrow> nat" where
  "pointer_levels (QualType type_string qs is_c ptr lref blt tag tdef rec) =
    (if well_known_contains type_string then 0
     else
       (case ptr of
          Some pointee_qt \<Rightarrow> Suc (pointer_levels pointee_qt)
        | None \<Rightarrow>
            (case lref of
               Some pointee_qt \<Rightarrow> Suc (pointer_levels pointee_qt)
             | None \<Rightarrow> 0)))"

text \<open>A mapped type with every lifetime id removed.\<close>

fun erase_lifetimes :: "MappedType \<Rightarrow> MappedType" where
  "erase_lifetimes (PointerType p lt nl c) = PointerType (erase_lifetimes p) None nl c"
| "erase_lifetimes (LValueReferenceType p lt c) = LValueReferenceType (erase_lifetimes p) None c"
| "erase_lifetimes t = t"

text \<open>
  The errors of one formal parameter as the specification states them (section 4.2): a
  parameter whose type does not convert gives the one error that names its type, and a
  parameter that converts gives an error only when it is a record passed by value that
  cannot be passed in registers.
\<close>

definition param_errors :: "nat set \<Rightarrow> parm_var_decl \<times> TypeLifetimes option \<Rightarrow> string list" where
  "param_errors known pl =
    (case pl of (param, lts) \<Rightarrow>
       (case ConvertType known (pv_type param) lts True of
          Inr (NotOk _) \<Rightarrow>
            [''Parameter type '' @ quoted (as_string (pv_type param)) @ '' is not supported'']
        | Inr (Ok _) \<Rightarrow>
            (if as_record_canPassInRegisters (pv_type param) = Some False then
               [''Non-trivial_abi type '' @ quoted (as_string (pv_type param)) @
                '' is not supported by value as a parameter'']
             else [])
        | Inl _ \<Rightarrow> []))"

definition this_errors :: "nat set \<Rightarrow> function_decl \<Rightarrow> string list" where
  "this_errors known function_decl =
    (case fd_method function_decl of
       Some method_decl \<Rightarrow>
         (if md_isInstance method_decl then
            (case ConvertType known (md_this_type method_decl)
                    (map_option this_lifetimes (fd_lifetimes function_decl)) False of
               Inr (NotOk st) \<Rightarrow> [message st]
             | _ \<Rightarrow> [])
          else [])
     | None \<Rightarrow> [])"

definition return_errors :: "nat set \<Rightarrow> function_decl \<Rightarrow> string list" where
  "return_errors known function_decl =
    return_type_abi_errors (fd_return_type function_decl) @
    (case ConvertType known (fd_return_type function_decl)
            (map_option return_lifetimes (fd_lifetimes function_decl)) True of
       Inr (NotOk _) \<Rightarrow>
         [''Return type '' @ quoted (as_string (fd_return_type function_decl)) @
          '' is not supported'']
     | _ \<Rightarrow> [])"

definition formal_slots :: "function_decl \<Rightarrow> (parm_var_decl \<times> TypeLifetimes option) list" where
  "formal_slots function_decl =
    zip (fd_params function_decl)
      (param_lifetime_slots (fd_lifetimes function_decl) (length (fd_params function_decl)))"

text \<open>The errors of a function: of \<open>this\<close>, of every parameter in order, of the return type.\<close>

definition collected_errors :: "nat set \<Rightarrow> function_decl \<Rightarrow> string list" where
  "collected_errors known function_decl =
    this_errors known function_decl @
    concat (map (param_errors known) (formal_slots function_decl)) @
    return_errors known function_decl"

text \<open>A parameter of a \<open>Func\<close> is the conversion of a formal parameter.\<close>

definition formal_param_of ::
  "nat set \<Rightarrow> parm_var_decl \<times> TypeLifetimes option \<Rightarrow> FuncParam \<Rightarrow> bool" where
  "formal_param_of known pl fp =
    (case pl of (param, lts) \<Rightarrow>
       ConvertType known (pv_type param) lts True = Inr (Ok (fp_type fp)) \<and>
       GetTranslatedIdentifier (pv_named param) = Some (fp_identifier fp))"

text \<open>The lifetime ids in the signature of a \<open>Func\<close>: in its parameters and return type.\<close>

definition signature_lifetimes :: "Func \<Rightarrow> LifetimeId list" where
  "signature_lifetimes f =
    concat (map (\<lambda>fp. type_lifetimes (fp_type fp)) (func_params f)) @
    type_lifetimes (func_return_type f)"

text \<open>
  An answer of the oracle that has exactly one lifetime for each level of each type of the
  signature. Neither the importer nor the specification makes sure that the oracle answers
  so: \<^verbatim>\<open>ImportFunction\<close> inserts every lifetime of the answer into
  \<open>all_lifetimes\<close>, whatever \<^verbatim>\<open>ConvertType\<close> takes from the list.
\<close>

definition oracle_one_lifetime_per_level :: "function_decl \<Rightarrow> bool" where
  "oracle_one_lifetime_per_level function_decl =
    (case fd_lifetimes function_decl of
       None \<Rightarrow> True
     | Some l \<Rightarrow>
         (case fd_method function_decl of
            Some method_decl \<Rightarrow>
              \<not> md_isInstance method_decl \<or>
              length (this_lifetimes l) = pointer_levels (md_this_type method_decl)
          | None \<Rightarrow> True) \<and>
         list_all2 (\<lambda>param lts. length lts = pointer_levels (pv_type param))
           (fd_params function_decl) (param_lifetimes l) \<and>
         length (return_lifetimes l) = pointer_levels (fd_return_type function_decl))"

text \<open>A lookup result with the lifetimes removed from its \<open>Func\<close>.\<close>

definition erase_param :: "FuncParam \<Rightarrow> FuncParam" where
  "erase_param fp = fp\<lparr>fp_type := erase_lifetimes (fp_type fp)\<rparr>"

definition erase_func :: "Func \<Rightarrow> Func" where
  "erase_func f =
    f\<lparr>func_return_type := erase_lifetimes (func_return_type f),
      func_params := map erase_param (func_params f),
      func_lifetime_params := []\<rparr>"

definition erase_result :: "LookupResult \<Rightarrow> LookupResult" where
  "erase_result r =
    r\<lparr>item := (case item r of Some (FuncItem f) \<Rightarrow> Some (FuncItem (erase_func f)) | i \<Rightarrow> i)\<rparr>"













text \<open>
  A cache extends another one when it has every entry of it, with the same result; and
  any sequence of lookups, one after the other.
\<close>

definition cache_extends ::
  "(Decl \<times> LookupResult) list \<Rightarrow> (Decl \<times> LookupResult) list \<Rightarrow> bool" where
  "cache_extends c c' = (\<forall>a r. cache_find c a = Some r \<longrightarrow> cache_find c' a = Some r)"

fun lookup_all :: "invocation \<Rightarrow> Decl list \<Rightarrow> importer \<Rightarrow> fatal + importer" where
  "lookup_all ivc [] st = Inr st"
| "lookup_all ivc (d # ds) st =
    (case LookupDecl ivc d st of
       Inl f \<Rightarrow> Inl f
     | Inr (_, st1) \<Rightarrow> lookup_all ivc ds st1)"

subsection \<open>Example declarations\<close>

text \<open>
  The declarations of the test header \<^verbatim>\<open>elided_lifetimes.h\<close>, in a header
  \<^verbatim>\<open>foo/bar.h\<close> of the current target \<^verbatim>\<open>//foo:bar\<close>: the struct \<open>S\<close> (at address
  10) and its method \<^verbatim>\<open>int& method(int& p1, int& p2)\<close> with the elided lifetimes
  \<open>a\<close> (of \<open>this\<close> and of the return type), \<open>b\<close> and \<open>c\<close>.
\<close>

definition ex_invocation :: invocation where
  "ex_invocation =
    \<lparr>current_target = ''//foo:bar'', header_targets = [(''foo/bar.h'', ''//foo:bar'')],
     entry_header_comments = []\<rparr>"

definition ex_location :: SourceLocation where
  "ex_location = ValidLocation False (Some ''./foo/bar.h'') InvalidLocation"

definition ex_common :: "nat \<Rightarrow> DeclContextKind \<Rightarrow> nat \<Rightarrow> nat \<Rightarrow> decl_common" where
  "ex_common a c b e =
    \<lparr>dc_addr = a, dc_decl_context = Some c, dc_location = ex_location,
     dc_source_range = \<lparr>getBegin = b, getEnd = e\<rparr>,
     dc_begin_filename = ''./foo/bar.h'', dc_begin_line = b, dc_begin_column = 1,
     dc_qualified_name = None, dc_raw_comment = None, dc_doc_comment = None\<rparr>"

definition ex_named :: "nat \<Rightarrow> DeclarationName \<Rightarrow> named_decl" where
  "ex_named a n = \<lparr>nd_addr = a, nd_canonical = a, nd_decl_name = n, nd_param_index = None\<rparr>"

definition ex_int :: QualType where
  "ex_int = QualType ''int'' ''int'' False None None
     (Some \<lparr>getKind = OtherBuiltin, isIntegerType = True, isSignedInteger = True,
            getTypeSize = 32\<rparr>) None None None"

definition ex_void :: QualType where
  "ex_void = QualType ''void'' ''void'' False None None
     (Some \<lparr>getKind = VoidKind, isIntegerType = False, isSignedInteger = False,
            getTypeSize = 0\<rparr>) None None None"

definition ex_int_ref :: QualType where
  "ex_int_ref = QualType ''int &'' ''int &'' False None (Some ex_int) None None None None"

definition ex_unsupported :: QualType where
  "ex_unsupported = QualType ''U'' ''U'' False None None None None None None"

definition ex_S :: QualType where
  "ex_S = QualType ''S'' ''S'' False None None None
     (Some (ex_named 10 (Identifier ''S''))) None (Some True)"

definition ex_S_ptr :: QualType where
  "ex_S_ptr = QualType ''S *'' ''S *'' False (Some ex_S) None None None None None"

definition ex_param :: "nat \<Rightarrow> string \<Rightarrow> nat \<Rightarrow> QualType \<Rightarrow> parm_var_decl" where
  "ex_param a n i ty =
    \<lparr>pv_type = ty,
     pv_named = \<lparr>nd_addr = a, nd_canonical = a, nd_decl_name = Identifier n,
                 nd_param_index = Some i\<rparr>\<rparr>"

definition ex_method_of_S :: cxx_method_decl where
  "ex_method_of_S =
    \<lparr>md_parent_canonical = 10, md_isInstance = True,
     md_this_type = ex_S_ptr, md_access = AS_public, md_ref_qualifier = RQ_None,
     md_isConst = False, md_isVirtual = False, md_constructor = None,
     md_isDestructor = False\<rparr>"

definition ex_method :: function_decl where
  "ex_method =
    \<lparr>fd_named = ex_named 12 (Identifier ''method''), fd_isDeleted = False,
     fd_isTemplated = False,
     fd_lifetimes =
       Some \<lparr>this_lifetimes = [1], param_lifetimes = [[2], [3]], return_lifetimes = [1]\<rparr>,
     fd_lifetime_symbol_table = [(1, ''a''), (2, ''b''), (3, ''c'')],
     fd_method = Some ex_method_of_S,
     fd_params = [ex_param 13 ''p1'' 0 ex_int_ref, ex_param 14 ''p2'' 1 ex_int_ref],
     fd_return_type = ex_int_ref, fd_mangled_name = ''_ZN1S6methodERiS0_'',
     fd_isInlined = False\<rparr>"

text \<open>
  A private static method of \<open>S\<close> with a parameter of an unsupported type, and a free
  operator function whose types all convert.
\<close>

definition ex_private_method :: function_decl where
  "ex_private_method =
    ex_method\<lparr>fd_lifetimes := None,
      fd_method := Some (ex_method_of_S\<lparr>md_isInstance := False, md_access := AS_private\<rparr>),
      fd_params := [ex_param 13 ''u'' 0 ex_unsupported], fd_return_type := ex_void\<rparr>"

definition ex_operator :: function_decl where
  "ex_operator =
    ex_method\<lparr>fd_named := ex_named 15 OtherDeclarationName, fd_lifetimes := None,
      fd_method := None, fd_params := [ex_param 16 ''x'' 0 ex_int], fd_return_type := ex_int\<rparr>"

definition ex_two_errors :: function_decl where
  "ex_two_errors =
    ex_method\<lparr>fd_lifetimes := None,
      fd_method := Some (ex_method_of_S\<lparr>md_isInstance := False\<rparr>),
      fd_params := [ex_param 13 ''u'' 0 ex_unsupported, ex_param 14 ''i'' 1 ex_int,
                    ex_param 15 ''v'' 2 ex_unsupported],
      fd_return_type := ex_void\<rparr>"

definition ex_method_func :: Func where
  "ex_method_func =
    \<lparr>func_name = Ident ''method'',
     func_owning_target = ''//foo:bar'', func_doc_comment = None,
     func_mangled_name = ''_ZN1S6methodERiS0_'',
     func_return_type = LValueReferenceType (SimpleType ''i32'' ''int'' False) (Some 1) False,
     func_params =
       [\<lparr>fp_type = PointerType (DeclIdsType ''S'' 10 ''S'' 10 False) (Some 1) False False,
          fp_identifier = ''__this''\<rparr>,
        \<lparr>fp_type = LValueReferenceType (SimpleType ''i32'' ''int'' False) (Some 2) False,
          fp_identifier = ''p1''\<rparr>,
        \<lparr>fp_type = LValueReferenceType (SimpleType ''i32'' ''int'' False) (Some 3) False,
          fp_identifier = ''p2''\<rparr>],
     func_lifetime_params =
       [\<lparr>lt_name = ''a'', lt_id = 1\<rparr>, \<lparr>lt_name = ''b'', lt_id = 2\<rparr>,
        \<lparr>lt_name = ''c'', lt_id = 3\<rparr>],
     func_is_inline = False,
     func_member_func_metadata =
       Some \<lparr>mfm_record_id = 10,
             mfm_instance_method_metadata =
               Some \<lparr>imm_reference = kUnqualified, imm_is_const = False,
                     imm_is_virtual = False, imm_is_explicit_ctor = False\<rparr>\<rparr>,
     func_source_loc = \<lparr>sl_filename = ''foo/bar.h'', sl_line = 5, sl_column = 1\<rparr>\<rparr>"

definition ex_S_definition :: record_definition where
  "ex_S_definition =
    \<lparr>def_common = ex_common 10 TranslationUnitContext 1 9,
     def_named = ex_named 10 (Identifier ''S''),
     def_isInvalidDecl = False, def_isCompleteDefinition = True,
     def_cxx = Some \<lparr>cxx_getDescribedClassTemplate = False, cxx_isClass = False,
                     cxx_isEffectivelyFinal = False\<rparr>,
     def_isClassTemplateSpecialization = False,
     def_fields =
       [\<lparr>fld_type = ex_S_ptr, fld_access = AS_public,
         fld_named = ex_named 11 (Identifier ''next''), fld_name_as_string = ''next'',
         fld_doc_comment = None, fld_offset = 0\<rparr>],
     def_layout_size = 8, def_layout_alignment = 8,
     def_copy_constructor = Trivial, def_move_constructor = Trivial,
     def_destructor = Trivial, def_canPassInRegisters = True\<rparr>"

definition ex_S_decl :: record_decl where
  "ex_S_decl =
    \<lparr>rd_isInjectedClassName = False, rd_isUnion = False,
     rd_getDefinition = Some ex_S_definition\<rparr>"



definition ex_S_record :: Record where
  "ex_S_record =
    \<lparr>record_identifier = ''S'', record_id = 10, record_owning_target = ''//foo:bar'',
     record_doc_comment = None,
     record_fields =
       [\<lparr>field_identifier = ''next'', field_doc_comment = None,
         field_type = PointerType (DeclIdsType ''S'' 10 ''S'' 10 False) None True False,
         field_access = kPublic, field_offset = 0\<rparr>],
     record_size = 8, record_alignment = 8, record_copy_constructor = Trivial,
     record_move_constructor = Trivial, record_destructor = Trivial,
     record_is_trivial_abi = True, record_is_final = False\<rparr>"

definition ex_method_node :: Decl where
  "ex_method_node = Decl (ex_common 12 RecordContext 5 6) (FunctionDecl ex_method) None []"

definition ex_S_node :: Decl where
  "ex_S_node =
    Decl (ex_common 10 TranslationUnitContext 1 9) (RecordDecl ex_S_decl) None [ex_method_node]"

definition ex_template_node :: Decl where
  "ex_template_node = Decl (ex_common 30 TranslationUnitContext 12 14) ClassTemplateDecl None []"

definition ex_comment :: RawComment where
  "ex_comment =
    \<lparr>rc_begin_loc = 10, rc_source_range = \<lparr>getBegin = 10, getEnd = 11\<rparr>,
     rc_formatted_text = ''A free comment''\<rparr>"

definition ex_translation_unit :: Decl where
  "ex_translation_unit =
    Decl (ex_common 1 TranslationUnitContext 0 0) OtherDecl None [ex_template_node, ex_S_node]"

definition ex_invocation_comments :: invocation where
  "ex_invocation_comments = ex_invocation\<lparr>entry_header_comments := [[ex_comment]]\<rparr>"


definition ex_unsupported_template :: UnsupportedItem where
  "ex_unsupported_template =
    \<lparr>unsupported_name = ''unnamed'',
     unsupported_message = ''Class templates are not supported yet'',
     unsupported_source_loc = \<lparr>sl_filename = ''foo/bar.h'', sl_line = 12, sl_column = 1\<rparr>\<rparr>"

definition ex_cache :: "(Decl \<times> LookupResult) list" where
  "ex_cache =
    [(ex_template_node, LookupResult_error ''Class templates are not supported yet''),
     (ex_method_node, LookupResult_item (FuncItem ex_method_func)),
     (ex_S_node, LookupResult_item (RecordItem ex_S_record))]"

definition ex_state :: importer where
  "ex_state = \<lparr>lookup_cache = ex_cache, known_type_decls = {10}\<rparr>"






text \<open>
  The function \<^verbatim>\<open>void f(int x)\<close> with an answer of the oracle that has a lifetime
  \<open>a\<close> for its parameter, which has no pointer or reference level.
\<close>

definition ex_extra_lifetime :: function_decl where
  "ex_extra_lifetime =
    \<lparr>fd_named = ex_named 16 (Identifier ''f''), fd_isDeleted = False, fd_isTemplated = False,
     fd_lifetimes = Some \<lparr>this_lifetimes = [], param_lifetimes = [[7]], return_lifetimes = []\<rparr>,
     fd_lifetime_symbol_table = [(7, ''a'')],
     fd_method = None,
     fd_params = [ex_param 17 ''x'' 0 ex_int],
     fd_return_type = ex_void, fd_mangled_name = ''_Z1fi'', fd_isInlined = False\<rparr>"

definition ex_extra_lifetime_func :: Func where
  "ex_extra_lifetime_func =
    \<lparr>func_name = Ident ''f'',
     func_owning_target = ''//foo:bar'', func_doc_comment = None,
     func_mangled_name = ''_Z1fi'',
     func_return_type = VoidType False,
     func_params = [\<lparr>fp_type = SimpleType ''i32'' ''int'' False, fp_identifier = ''x''\<rparr>],
     func_lifetime_params = [\<lparr>lt_name = ''a'', lt_id = 7\<rparr>],
     func_is_inline = False,
     func_member_func_metadata = None,
     func_source_loc = \<lparr>sl_filename = ''foo/bar.h'', sl_line = 5, sl_column = 1\<rparr>\<rparr>"




text \<open>
  The function \<^verbatim>\<open>int* return_pointer(int* p)\<close> with a failure of the oracle: no
  lifetimes and an empty symbol table.
\<close>

definition ex_int_ptr :: QualType where
  "ex_int_ptr = QualType ''int *'' ''int *'' False (Some ex_int) None None None None None"

definition ex_return_pointer :: function_decl where
  "ex_return_pointer =
    \<lparr>fd_named = ex_named 18 (Identifier ''return_pointer''), fd_isDeleted = False,
     fd_isTemplated = False, fd_lifetimes = None, fd_lifetime_symbol_table = [],
     fd_method = None, fd_params = [ex_param 19 ''p'' 0 ex_int_ptr],
     fd_return_type = ex_int_ptr, fd_mangled_name = ''_Z14return_pointerPi'',
     fd_isInlined = False\<rparr>"

definition ex_return_pointer_func :: Func where
  "ex_return_pointer_func =
    \<lparr>func_name = Ident ''return_pointer'',
     func_owning_target = ''//foo:bar'', func_doc_comment = None,
     func_mangled_name = ''_Z14return_pointerPi'',
     func_return_type = PointerType (SimpleType ''i32'' ''int'' False) None True False,
     func_params =
       [\<lparr>fp_type = PointerType (SimpleType ''i32'' ''int'' False) None True False,
         fp_identifier = ''p''\<rparr>],
     func_lifetime_params = [],
     func_is_inline = False,
     func_member_func_metadata = None,
     func_source_loc = \<lparr>sl_filename = ''foo/bar.h'', sl_line = 7, sl_column = 1\<rparr>\<rparr>"

section \<open>Properties\<close>

declare LookupDecl.simps [simp del] ImportDecl.simps [simp del]

lemmas walker_defs =
  cache_contains_def cache_insert_def cache_at_def decl_addr_def getCanonicalDecl_def
  new_importer_def

lemmas ex_node_defs =
  ex_method_node_def ex_S_node_def ex_template_node_def ex_translation_unit_def
  ex_comment_def ex_invocation_comments_def



lemmas record_importer_defs =
  ImportRecord_def ImportRecord_definition_def ImportFields_def TranslateAccessSpecifier_def
  isFunctionOrMethod_def isRecord_def isNamespace_def


lemmas ex_defs =
  ex_invocation_def ex_location_def ex_common_def ex_named_def ex_int_def ex_void_def
  ex_int_ref_def ex_unsupported_def ex_S_def ex_S_ptr_def ex_param_def ex_method_of_S_def
  ex_method_def

lemmas type_mapper_defs =
  well_known_find_def well_known_contains_def kWellKnownTypes_def finish_type_def
  pop_lifetime_def convert_builtin_def convert_known_decl_def Simple_def Void_def
  PointerTo_def LValueReferenceTo_def WithDeclIds_def GenerateDeclId_def
  GetTranslatedIdentifier_def GetTranslatedName_def quoted_def

lemmas function_importer_defs =
  ImportFunction_def ImportFunction_signature_def import_implicit_this_def
  import_this_param_def param_lifetime_slots_def return_type_abi_errors_def
  return_type_errors_def is_instance_method_def all_lifetimes_def make_lifetime_params_def
  make_member_func_metadata_def is_non_public_method_def parent_is_unknown_def
  IsFromCurrentTarget_def header_target_def strip_dot_slash_def GetComment_def
  ConvertSourceLocation_def LookupResult_none_def LookupResult_item_def
  LookupResult_error_def LookupResult_errors_def

lemmas function_wording_defs =
  collected_errors_def this_errors_def param_errors_def return_errors_def formal_slots_def
  formal_param_of_def signature_lifetimes_def oracle_one_lifetime_per_level_def


lemmas ex_all_defs =
  ex_node_defs ex_state_def ex_cache_def ex_S_decl_def ex_S_definition_def ex_S_record_def
  ex_method_func_def ex_unsupported_template_def ex_defs

subsection \<open>Facts about the type mapper\<close>

lemma type_lifetimes_set_is_const [simp]: "type_lifetimes (set_is_const c t) = type_lifetimes t"
  by (cases t) simp_all

lemma erase_lifetimes_set_is_const [simp]:
  "erase_lifetimes (set_is_const c t) = set_is_const c (erase_lifetimes t)"
  by (cases t) simp_all

lemma type_lifetimes_convert_builtin:
  "convert_builtin s b = Some t \<Longrightarrow> type_lifetimes t = []"
  by (auto simp: convert_builtin_def Simple_def Void_def Let_def split: BuiltinKind.splits if_splits)

lemma type_lifetimes_convert_known_decl:
  "convert_known_decl known d = Some t \<Longrightarrow> type_lifetimes t = []"
  by (auto simp: convert_known_decl_def WithDeclIds_def split: option.splits if_splits)

lemma erase_convert_builtin:
  "convert_builtin s b = Some t \<Longrightarrow> erase_lifetimes t = t"
  by (auto simp: convert_builtin_def Simple_def Void_def Let_def split: BuiltinKind.splits if_splits)

lemma erase_convert_known_decl:
  "convert_known_decl known d = Some t \<Longrightarrow> erase_lifetimes t = t"
  by (auto simp: convert_known_decl_def WithDeclIds_def split: option.splits if_splits)

lemma finish_type_Ok:
  "finish_type s c x = Ok t \<longleftrightarrow> (\<exists>ty. x = Some ty \<and> t = set_is_const c ty)"
  by (auto simp: finish_type_def split: option.splits)

lemma ConvertType_None_not_fatal: "ConvertType known qt None nl \<noteq> Inl f"
  by (induction known qt "None :: TypeLifetimes option" nl rule: ConvertType.induct)
     (auto simp: pop_lifetime_def split: option.splits sum.splits StatusOr.splits)

lemma ConvertType_None_lifetimes:
  "ConvertType known qt None nl = Inr (Ok t) \<Longrightarrow> type_lifetimes t = []"
  by (induction known qt "None :: TypeLifetimes option" nl arbitrary: t rule: ConvertType.induct)
     (auto simp: pop_lifetime_def finish_type_Ok Simple_def PointerTo_def LValueReferenceTo_def
        type_lifetimes_convert_builtin type_lifetimes_convert_known_decl
        split: option.splits sum.splits StatusOr.splits)


lemma ConvertType_Some_lifetimes:
  "ConvertType known qt (Some ls) nl = Inr (Ok t) \<Longrightarrow> \<exists>pre. ls = pre @ rev (type_lifetimes t)"
proof (induction known qt "Some ls" nl arbitrary: t ls rule: ConvertType.induct)
  case (1 known type_string qs is_c ptr lref blt tag tdef rec nl)
  show ?case
  proof (cases "well_known_find type_string")
    case (Some rs)
    with 1(3) show ?thesis by (auto simp: finish_type_Ok Simple_def)
  next
    case wk: None
    show ?thesis
    proof (cases ptr)
      case (Some pointee_qt)
      with wk 1(3) obtain pt where ne: "ls \<noteq> []"
        and c: "ConvertType known pointee_qt (Some (butlast ls)) True = Inr (Ok pt)"
        and t: "t = set_is_const is_c (PointerTo pt (Some (last ls)) nl)"
        by (auto simp: pop_lifetime_def finish_type_Ok split: if_splits sum.splits StatusOr.splits)
      from ne have pl: "pop_lifetime (Some ls) = Inr (Some (last ls), Some (butlast ls))"
        by (simp add: pop_lifetime_def)
      from 1(2) [OF wk Some pl refl c]
      obtain pre where "butlast ls = pre @ rev (type_lifetimes pt)"
        by auto
      then have "ls = pre @ rev (type_lifetimes pt) @ [last ls]"
        using ne by (metis append_butlast_last_id append.assoc)
      then show ?thesis using t by (auto simp: PointerTo_def)
    next
      case np: None
      show ?thesis
      proof (cases lref)
        case (Some pointee_qt)
        with wk np 1(3) obtain pt where ne: "ls \<noteq> []"
          and c: "ConvertType known pointee_qt (Some (butlast ls)) True = Inr (Ok pt)"
          and t: "t = set_is_const is_c (LValueReferenceTo pt (Some (last ls)))"
          by (auto simp: pop_lifetime_def finish_type_Ok split: if_splits sum.splits StatusOr.splits)
        from ne have pl: "pop_lifetime (Some ls) = Inr (Some (last ls), Some (butlast ls))"
          by (simp add: pop_lifetime_def)
        from 1(1) [OF wk np Some pl refl c]
        obtain pre where "butlast ls = pre @ rev (type_lifetimes pt)"
          by auto
        then have "ls = pre @ rev (type_lifetimes pt) @ [last ls]"
          using ne by (metis append_butlast_last_id append.assoc)
        then show ?thesis using t by (auto simp: LValueReferenceTo_def)
      next
        case None
        with wk np 1(3) have "type_lifetimes t = []"
          by (auto simp: finish_type_Ok type_lifetimes_convert_builtin
              type_lifetimes_convert_known_decl split: option.splits)
        then show ?thesis by simp
      qed
    qed
  qed
qed


lemma ConvertType_levels:
  "ConvertType known qt lts nl = Inr (Ok t) \<Longrightarrow> lts \<noteq> None \<Longrightarrow>
   length (type_lifetimes t) = pointer_levels qt"
  by (induction known qt lts nl arbitrary: t rule: ConvertType.induct)
     (auto simp: pop_lifetime_def finish_type_Ok Simple_def PointerTo_def LValueReferenceTo_def
        well_known_contains_def
        type_lifetimes_convert_builtin type_lifetimes_convert_known_decl
        split: option.splits sum.splits StatusOr.splits if_splits)

lemma pop_lifetime_None [simp]: "pop_lifetime None = Inr (None, None)"
  by (simp add: pop_lifetime_def)

lemma erase_PointerTo [simp]:
  "erase_lifetimes (PointerTo p lt nl) = PointerTo (erase_lifetimes p) None nl"
  by (simp add: PointerTo_def)

lemma erase_LValueReferenceTo [simp]:
  "erase_lifetimes (LValueReferenceTo p lt) = LValueReferenceTo (erase_lifetimes p) None"
  by (simp add: LValueReferenceTo_def)

lemma erase_Simple [simp]: "erase_lifetimes (Simple rs cc) = Simple rs cc"
  by (simp add: Simple_def)

lemma finish_type_NotOk:
  "finish_type s c x = NotOk e \<longleftrightarrow>
   x = None \<and> e = UnimplementedError (''Unsupported type '' @ quoted s) (Some s)"
  by (auto simp: finish_type_def split: option.splits)

lemma ConvertType_erase:
  "(ConvertType known qt lts nl = Inr (Ok t) \<longrightarrow>
      ConvertType known qt None nl = Inr (Ok (erase_lifetimes t))) \<and>
   (ConvertType known qt lts nl = Inr (NotOk e) \<longrightarrow>
      ConvertType known qt None nl = Inr (NotOk e))"
proof (induction known qt lts nl arbitrary: t e rule: ConvertType.induct)
  case (1 known type_string qs is_c ptr lref blt tag tdef rec lifetimes nl)
  show ?case
  proof (cases "well_known_find type_string")
    case (Some rs)
    then show ?thesis by (auto simp: finish_type_Ok finish_type_NotOk)
  next
    case wk: None
    show ?thesis
    proof (cases ptr)
      case (Some pointee_qt)
      show ?thesis
      proof (cases "pop_lifetime lifetimes")
        case (Inl f)
        with wk Some show ?thesis by simp
      next
        case (Inr b)
        obtain lt lts' where b: "b = (lt, lts')" by (cases b)
        note ih = 1(2) [OF wk Some Inr b [symmetric]]
        show ?thesis
        proof (cases "ConvertType known pointee_qt lts' True")
          case (Inl f)
          with wk Some Inr b show ?thesis by simp
        next
          case r: (Inr res)
          show ?thesis
          proof (cases res)
            case (Ok pt)
            with ih [of pt undefined] r
            have "ConvertType known pointee_qt None True = Inr (Ok (erase_lifetimes pt))"
              by simp
            with wk Some Inr b r Ok show ?thesis
              by (auto simp: finish_type_Ok finish_type_NotOk)
          next
            case (NotOk st)
            with ih [of undefined st] r
            have "ConvertType known pointee_qt None True = Inr (NotOk st)"
              by simp
            with wk Some Inr b r NotOk show ?thesis
              by (auto simp: finish_type_Ok finish_type_NotOk)
          qed
        qed
      qed
    next
      case np: None
      show ?thesis
      proof (cases lref)
        case (Some pointee_qt)
        show ?thesis
        proof (cases "pop_lifetime lifetimes")
          case (Inl f)
          with wk np Some show ?thesis by simp
        next
          case (Inr b)
          obtain lt lts' where b: "b = (lt, lts')" by (cases b)
          note ih = 1(1) [OF wk np Some Inr b [symmetric]]
          show ?thesis
          proof (cases "ConvertType known pointee_qt lts' True")
            case (Inl f)
            with wk np Some Inr b show ?thesis by simp
          next
            case r: (Inr res)
            show ?thesis
            proof (cases res)
              case (Ok pt)
              with ih [of pt undefined] r
              have "ConvertType known pointee_qt None True = Inr (Ok (erase_lifetimes pt))"
                by simp
              with wk np Some Inr b r Ok show ?thesis
                by (auto simp: finish_type_Ok finish_type_NotOk)
            next
              case (NotOk st)
              with ih [of undefined st] r
              have "ConvertType known pointee_qt None True = Inr (NotOk st)"
                by simp
              with wk np Some Inr b r NotOk show ?thesis
                by (auto simp: finish_type_Ok finish_type_NotOk)
            qed
          qed
        qed
      next
        case None
        with wk np show ?thesis
          by (auto simp: finish_type_Ok finish_type_NotOk erase_convert_builtin
              erase_convert_known_decl split: option.splits)
      qed
    qed
  qed
qed


subsection \<open>Facts about the function importer\<close>

lemma import_params_errors:
  "import_params known pls params errs = Inr (params', errs') \<Longrightarrow>
   errs' = errs @ concat (map (param_errors known) pls)"
proof (induction pls arbitrary: params errs)
  case Nil
  then show ?case by simp
next
  case (Cons pl pls)
  obtain param lts where pl: "pl = (param, lts)" by (cases pl)
  from Cons.prems pl obtain params1 where
    r: "import_params known pls params1 (errs @ param_errors known pl) = Inr (params', errs')"
    by (auto simp: param_errors_def Let_def
        split: sum.splits StatusOr.splits option.splits bool.splits if_splits)
  from Cons.IH [OF r] show ?case by simp
qed

lemma import_params_formals:
  "import_params known pls params errs = Inr (params', errs') \<Longrightarrow>
   concat (map (param_errors known) pls) = [] \<Longrightarrow>
   \<exists>formals. params' = params @ formals \<and> list_all2 (formal_param_of known) pls formals"
proof (induction pls arbitrary: params errs)
  case Nil
  then show ?case by simp
next
  case (Cons pl pls)
  obtain param lts where pl: "pl = (param, lts)" by (cases pl)
  from Cons.prems(2) have no: "param_errors known pl = []"
    and rest: "concat (map (param_errors known) pls) = []" by simp_all
  from Cons.prems(1) pl no obtain ty nm where
    c: "ConvertType known (pv_type param) lts True = Inr (Ok ty)"
    and n: "GetTranslatedIdentifier (pv_named param) = Some nm"
    and r: "import_params known pls (params @ [\<lparr>fp_type = ty, fp_identifier = nm\<rparr>]) errs =
              Inr (params', errs')"
    by (auto simp: param_errors_def Let_def
        split: sum.splits StatusOr.splits option.splits bool.splits if_splits)
  from Cons.IH [OF r rest] obtain formals where
    f: "params' = (params @ [\<lparr>fp_type = ty, fp_identifier = nm\<rparr>]) @ formals"
    and a: "list_all2 (formal_param_of known) pls formals" by blast
  have "formal_param_of known pl \<lparr>fp_type = ty, fp_identifier = nm\<rparr>"
    using c n pl by (simp add: formal_param_of_def)
  with f a show ?case
    by (intro exI [of _ "\<lparr>fp_type = ty, fp_identifier = nm\<rparr> # formals"]) simp
qed


lemma import_implicit_this_errors:
  "import_implicit_this known fd = Inr (params0, errors0) \<Longrightarrow> errors0 = this_errors known fd"
  by (auto simp: import_implicit_this_def import_this_param_def this_errors_def
      split: option.splits if_splits sum.splits StatusOr.splits)

lemma return_errors_eq:
  "ConvertType known (fd_return_type fd) (map_option return_lifetimes (fd_lifetimes fd)) True =
     Inr return_type \<Longrightarrow>
   return_type_abi_errors (fd_return_type fd) @ return_type_errors (fd_return_type fd) return_type =
     return_errors known fd"
  by (simp add: return_errors_def return_type_errors_def split: StatusOr.splits)

lemma ImportFunction_signature_Inr:
  assumes "ImportFunction_signature ivc known d fd = Inr result"
  shows "\<exists>params0 params return_type lps.
      import_implicit_this known fd = Inr (params0, this_errors known fd) \<and>
      import_params known (formal_slots fd) params0 (this_errors known fd) =
        Inr (params, this_errors known fd @ concat (map (param_errors known) (formal_slots fd))) \<and>
      ConvertType known (fd_return_type fd) (map_option return_lifetimes (fd_lifetimes fd)) True =
        Inr return_type \<and>
      make_lifetime_params fd = Inr lps \<and>
      (\<forall>l. fd_lifetimes fd = Some l \<longrightarrow> length (param_lifetimes l) = length (fd_params fd)) \<and>
      (if is_non_public_method fd then result = LookupResult_none
       else if collected_errors known fd \<noteq> [] then
         result = LookupResult_errors (collected_errors known fd)
       else
         (case GetTranslatedName (fd_named fd) of
            None \<Rightarrow> result = LookupResult_none
          | Some n \<Rightarrow>
              (\<exists>f rt. result = LookupResult_item (FuncItem f) \<and> return_type = Ok rt \<and>
                 func_name f = n \<and> func_params f = params \<and> func_return_type f = rt \<and>
                 func_lifetime_params f = lps)))"
proof -
  from assms obtain params0 errors0 where
    t: "import_implicit_this known fd = Inr (params0, errors0)"
    by (auto simp: ImportFunction_signature_def Let_def split: sum.splits)
  have e0: "errors0 = this_errors known fd"
    using t by (rule import_implicit_this_errors)
  from assms t have len:
    "\<forall>l. fd_lifetimes fd = Some l \<longrightarrow> length (param_lifetimes l) = length (fd_params fd)"
    by (auto simp: ImportFunction_signature_def Let_def split: if_splits)
  then have nolen: "\<not> (case fd_lifetimes fd of
                Some l \<Rightarrow> length (param_lifetimes l) \<noteq> length (fd_params fd)
              | None \<Rightarrow> False)"
    by (auto split: option.splits)
  from assms t nolen obtain params errors1 where
    p: "import_params known (formal_slots fd) params0 errors0 = Inr (params, errors1)"
    by (auto simp: ImportFunction_signature_def Let_def formal_slots_def split: sum.splits)
  have e1: "errors1 = this_errors known fd @ concat (map (param_errors known) (formal_slots fd))"
    using import_params_errors [OF p] e0 by simp
  from assms t nolen p obtain return_type where
    r: "ConvertType known (fd_return_type fd) (map_option return_lifetimes (fd_lifetimes fd)) True =
          Inr return_type"
    by (auto simp: ImportFunction_signature_def Let_def formal_slots_def split: sum.splits)
  from assms t nolen p r obtain lps where
    l: "make_lifetime_params fd = Inr lps"
    by (auto simp: ImportFunction_signature_def Let_def formal_slots_def split: sum.splits)
  have e2: "errors1 @ return_type_abi_errors (fd_return_type fd) @
            return_type_errors (fd_return_type fd) return_type = collected_errors known fd"
    using return_errors_eq [OF r] e1 by (simp add: collected_errors_def)
  have res: "if is_non_public_method fd then result = LookupResult_none
       else if collected_errors known fd \<noteq> [] then
         result = LookupResult_errors (collected_errors known fd)
       else
         (case GetTranslatedName (fd_named fd) of
            None \<Rightarrow> result = LookupResult_none
          | Some n \<Rightarrow>
              (\<exists>f rt. result = LookupResult_item (FuncItem f) \<and> return_type = Ok rt \<and>
                 func_name f = n \<and> func_params f = params \<and> func_return_type f = rt \<and>
                 func_lifetime_params f = lps))"
    using assms t nolen p r l e2 [symmetric]
    unfolding ImportFunction_signature_def Let_def formal_slots_def [symmetric]
    by (auto simp: return_type_errors_def split: option.splits StatusOr.splits if_splits)
  from t e0 p e1 r l len res show ?thesis by blast
qed

lemma import_implicit_this_instance:
  assumes "import_implicit_this known fd = Inr (params0, [])"
  shows "if is_instance_method fd then
           (\<exists>md t. fd_method fd = Some md \<and>
              ConvertType known (md_this_type md) (map_option this_lifetimes (fd_lifetimes fd))
                False = Inr (Ok t) \<and>
              params0 = [\<lparr>fp_type = t, fp_identifier = ''__this''\<rparr>])
         else params0 = []"
  using assms
  by (auto simp: import_implicit_this_def import_this_param_def is_instance_method_def
      split: option.splits if_splits sum.splits StatusOr.splits)

lemma ImportFunction_Func:
  assumes "ImportFunction ivc known d fd = Inr result"
    and "item result = Some (FuncItem f)"
  shows "\<exists>params0 formals.
      import_implicit_this known fd = Inr (params0, []) \<and>
      func_params f = params0 @ formals \<and>
      list_all2 (formal_param_of known) (formal_slots fd) formals \<and>
      ConvertType known (fd_return_type fd) (map_option return_lifetimes (fd_lifetimes fd)) True =
        Inr (Ok (func_return_type f)) \<and>
      make_lifetime_params fd = Inr (func_lifetime_params f) \<and>
      (\<forall>l. fd_lifetimes fd = Some l \<longrightarrow> length (param_lifetimes l) = length (fd_params fd)) \<and>
      GetTranslatedName (fd_named fd) = Some (func_name f) \<and>
      \<not> is_non_public_method fd \<and> collected_errors known fd = []"
proof -
  from assms have sig: "ImportFunction_signature ivc known d fd = Inr result"
    by (auto simp: ImportFunction_def LookupResult_none_def LookupResult_error_def
        split: if_splits)
  from ImportFunction_signature_Inr [OF sig] obtain params0 params return_type lps where
    t: "import_implicit_this known fd = Inr (params0, this_errors known fd)"
    and p: "import_params known (formal_slots fd) params0 (this_errors known fd) =
        Inr (params, this_errors known fd @ concat (map (param_errors known) (formal_slots fd)))"
    and r: "ConvertType known (fd_return_type fd) (map_option return_lifetimes (fd_lifetimes fd))
        True = Inr return_type"
    and l: "make_lifetime_params fd = Inr lps"
    and len: "\<forall>l. fd_lifetimes fd = Some l \<longrightarrow> length (param_lifetimes l) = length (fd_params fd)"
    and res: "if is_non_public_method fd then result = LookupResult_none
       else if collected_errors known fd \<noteq> [] then
         result = LookupResult_errors (collected_errors known fd)
       else
         (case GetTranslatedName (fd_named fd) of
            None \<Rightarrow> result = LookupResult_none
          | Some n \<Rightarrow>
              (\<exists>f rt. result = LookupResult_item (FuncItem f) \<and> return_type = Ok rt \<and>
                 func_name f = n \<and> func_params f = params \<and> func_return_type f = rt \<and>
                 func_lifetime_params f = lps))"
    by blast
  from res assms(2) have pub: "\<not> is_non_public_method fd"
    and noerr: "collected_errors known fd = []"
    by (auto simp: LookupResult_none_def LookupResult_errors_def split: if_splits)
  from noerr have te: "this_errors known fd = []"
    and pe: "concat (map (param_errors known) (formal_slots fd)) = []"
    by (simp_all add: collected_errors_def)
  from res pub noerr assms(2) have
    f: "GetTranslatedName (fd_named fd) = Some (func_name f)" "func_params f = params"
       "return_type = Ok (func_return_type f)" "func_lifetime_params f = lps"
    by (auto simp: LookupResult_none_def LookupResult_item_def split: option.splits)
  from import_params_formals [OF p pe] obtain formals where
    "params = params0 @ formals" "list_all2 (formal_param_of known) (formal_slots fd) formals"
    by blast
  with t te r l len f pub noerr show ?thesis by auto
qed



subsection \<open>The well-known-type table\<close>

lemma distinct_kWellKnownTypes: "distinct (map fst kWellKnownTypes)"
  by (simp add: kWellKnownTypes_def)

lemma distinct_listed_types:
  "distinct (map fst (claimed_well_known_types @ std_fixed_width_types))"
  by (simp add: claimed_well_known_types_def std_fixed_width_types_def)

lemma set_kWellKnownTypes:
  "set kWellKnownTypes = set (claimed_well_known_types @ std_fixed_width_types)"
  unfolding kWellKnownTypes_def claimed_well_known_types_def std_fixed_width_types_def
  by (simp add: insert_commute)

lemma well_known_find_listed:
  "well_known_find = map_of (claimed_well_known_types @ std_fixed_width_types)"
  unfolding well_known_find_def
  using distinct_kWellKnownTypes distinct_listed_types set_kWellKnownTypes
  by (simp only: map_of_inject_set)

lemma ConvertType_well_known:
  "well_known_find (unqualified_string qt) = Some rs \<Longrightarrow>
   ConvertType known qt lifetimes nl =
     Inr (Ok (SimpleType rs (unqualified_string qt) (isConstQualified qt)))"
  by (cases qt) (simp add: finish_type_def Simple_def)

text \<open>
  C8, as the claim states it, fails: the table also maps the \<open>std::\<close>-qualified
  spellings of the fixed-width integer types, which the claim's list does not contain.
\<close>

theorem well_known_types_counterexample:
  "well_known_find ''std::int8_t'' = Some ''i8'' \<and>
   map_of claimed_well_known_types ''std::int8_t'' = None"
  by (simp add: well_known_find_def kWellKnownTypes_def claimed_well_known_types_def)

text \<open>
  C8 (amended): the well-known-type table maps exactly the spellings of the claim's list
  and the \<open>std::\<close>-qualified spellings of the eight fixed-width integer types, each to
  the stated target type; and a type whose unqualified spelling is in the table converts to
  the simple type of the table, whatever its other properties are: the table lookup comes
  before every other conversion case.
\<close>

theorem well_known_types_table:
  "well_known_find s = map_of (claimed_well_known_types @ std_fixed_width_types) s \<and>
   (well_known_find (unqualified_string qt) = Some rs \<longrightarrow>
    ConvertType known qt lifetimes nl =
      Inr (Ok (SimpleType rs (unqualified_string qt) (isConstQualified qt))))"
  using ConvertType_well_known [of qt rs known lifetimes nl]
  by (simp add: well_known_find_listed)

text \<open>
  A witness: a pointer type that is spelled \<open>size_t\<close> and is const converts to the simple
  type \<open>usize\<close>, with no lifetime consumed.
\<close>

theorem well_known_types_table_witness:
  "well_known_find ''size_t'' = Some ''usize'' \<and>
   ConvertType {} (QualType ''size_t'' ''const size_t'' True
       (Some (QualType ''int'' ''int'' False None None None None None None))
       None None None None None) (Some []) True =
     Inr (Ok (SimpleType ''usize'' ''size_t'' True))"
proof -
  have h: "well_known_find ''size_t'' = Some ''usize''"
    by (simp add: well_known_find_def kWellKnownTypes_def)
  show ?thesis
    using h well_known_types_table [of "''size_t''"
        "QualType ''size_t'' ''const size_t'' True
           (Some (QualType ''int'' ''int'' False None None None None None None))
           None None None None None" "''usize''" "{}" "Some []" True]
    by simp
qed

subsection \<open>The owner resolver walks up the include stack\<close>

lemma GetOwningTarget_include_chain:
  "textual_headers ivc fs \<Longrightarrow>
   GetOwningTarget ivc (include_chain fs upper) = GetOwningTarget ivc upper"
  by (induction fs) (simp_all add: textual_headers_def)

text \<open>
  C3, as the claim states it, fails: when the include stack ends without a hit, the
  location is invalid and the result is the virtual resource-dir label, not the built-in
  label.
\<close>

theorem GetOwningTarget_counterexample:
  "GetOwningTarget \<lparr>current_target = ''//foo:bar'', header_targets = [],
       entry_header_comments = []\<rparr>
     (ValidLocation False (Some ''./foo/textual.inc'') InvalidLocation) \<noteq> ''//:builtin''"
  by (simp add: header_target_def)

text \<open>
  C3 (amended): \<^verbatim>\<open>GetOwningTarget\<close> walks from the declaration's location up the
  include stack while the location is valid and not in a system header. Past any files
  that are not in the header-to-target map, it returns the mapped label of the first file
  (with a leading \<open>./\<close> stripped) that is in the map; the built-in label when the file
  of the location has no non-builtin filename; and the virtual resource-dir label when the
  location is in a system header or has become invalid without a hit.
\<close>

theorem GetOwningTarget_walk:
  assumes "textual_headers ivc fs"
  shows "GetOwningTarget ivc (include_chain fs InvalidLocation) =
           ''//:virtual_clang_resource_dir_target'' \<and>
         GetOwningTarget ivc (include_chain fs (ValidLocation True filename up)) =
           ''//:virtual_clang_resource_dir_target'' \<and>
         GetOwningTarget ivc (include_chain fs (ValidLocation False None up)) = ''//:builtin'' \<and>
         (header_target ivc (strip_dot_slash h) = Some t \<longrightarrow>
          GetOwningTarget ivc (include_chain fs (ValidLocation False (Some h) up)) = t)"
  using assms by (simp add: GetOwningTarget_include_chain)

theorem GetOwningTarget_walk_witness:
  "GetOwningTarget \<lparr>current_target = ''//foo:bar'',
       header_targets = [(''foo/bar.h'', ''//foo:bar'')], entry_header_comments = []\<rparr>
     (include_chain [''./foo/textual.inc'', ''foo/other.inc'']
        (ValidLocation False (Some ''./foo/bar.h'') InvalidLocation)) = ''//foo:bar'' \<and>
   GetOwningTarget \<lparr>current_target = ''//foo:bar'',
       header_targets = [(''foo/bar.h'', ''//foo:bar'')], entry_header_comments = []\<rparr>
     (include_chain [''./foo/textual.inc'', ''foo/other.inc''] InvalidLocation) =
     ''//:virtual_clang_resource_dir_target''"
proof -
  let ?ivc = "\<lparr>current_target = ''//foo:bar'',
       header_targets = [(''foo/bar.h'', ''//foo:bar'')], entry_header_comments = []\<rparr>"
  have t: "textual_headers ?ivc [''./foo/textual.inc'', ''foo/other.inc'']"
    by (simp add: textual_headers_def header_target_def strip_dot_slash_def)
  have h: "header_target ?ivc (strip_dot_slash ''./foo/bar.h'') = Some ''//foo:bar''"
    by (simp add: header_target_def strip_dot_slash_def)
  show ?thesis
    using GetOwningTarget_walk [OF t, of None InvalidLocation "''./foo/bar.h''" "''//foo:bar''"] h
    by simp
qed

subsection \<open>Facts about the memo cache\<close>

lemma cache_find_append:
  "cache_find (c @ c') a = (case cache_find c a of Some r \<Rightarrow> Some r | None \<Rightarrow> cache_find c' a)"
  by (induction c) auto









subsection \<open>A typedef without an identifier ends the run\<close>












subsection \<open>Error aggregation of the function importer\<close>

lemma decimal_32 [simp]: "decimal 32 = ''32''"
  by (simp add: decimal.simps digit_char_def)

lemma ex_private_method_result:
  "ImportFunction ex_invocation {10} (ex_common 12 RecordContext 5 6) ex_private_method =
     Inr LookupResult_none"
  by (simp add: ex_private_method_def ex_operator_def ex_two_errors_def ex_defs type_mapper_defs function_importer_defs)

lemma ex_private_method_errors:
  "collected_errors {10} ex_private_method =
     [''Parameter type '' @ quoted ''U'' @ '' is not supported'']"
  by (simp add: ex_private_method_def ex_operator_def ex_two_errors_def ex_defs type_mapper_defs function_importer_defs function_wording_defs)

lemma ex_operator_result:
  "ImportFunction ex_invocation {10} (ex_common 15 TranslationUnitContext 5 6) ex_operator =
     Inr LookupResult_none"
  by (simp add: ex_private_method_def ex_operator_def ex_two_errors_def ex_defs type_mapper_defs function_importer_defs)

lemma ex_operator_errors: "collected_errors {10} ex_operator = []"
  by (simp add: ex_private_method_def ex_operator_def ex_two_errors_def ex_defs type_mapper_defs function_importer_defs function_wording_defs)

text \<open>
  C4, as the claim states it, fails twice. A private method with a parameter of an
  unsupported type records the error, but its lookup result is empty: the access switch
  returns before the errors are looked at. And a function without any error yields no
  \<open>Func\<close> when its name does not translate, as for an operator.
\<close>

theorem ImportFunction_error_aggregation_counterexample:
  "ImportFunction ex_invocation {10} (ex_common 12 RecordContext 5 6) ex_private_method =
     Inr LookupResult_none \<and>
   collected_errors {10} ex_private_method =
     [''Parameter type '' @ quoted ''U'' @ '' is not supported''] \<and>
   ImportFunction ex_invocation {10} (ex_common 15 TranslationUnitContext 5 6) ex_operator =
     Inr LookupResult_none \<and>
   collected_errors {10} ex_operator = []"
  by (simp only: ex_private_method_result ex_private_method_errors ex_operator_result
      ex_operator_errors simp_thms)


lemma ImportFunction_gates:
  assumes "IsFromCurrentTarget ivc d" "\<not> fd_isDeleted fd" "\<not> fd_isTemplated fd"
    and "\<not> parent_is_unknown known fd"
  shows "ImportFunction ivc known d fd = ImportFunction_signature ivc known d fd"
  using assms by (simp add: ImportFunction_def)

text \<open>
  C4 (amended): for a function that passes the gates of \<^verbatim>\<open>ImportFunction\<close> (from the
  current target, not deleted, not templated, the parent of a method known), the loop
  over the parameters adds for each parameter its errors and goes on to the next one, so a
  parameter whose type does not convert adds exactly the error that names its type. A
  method that is not public yields an empty result. Otherwise, when any error was
  recorded the lookup result is the full list of errors and no item; when none was
  recorded there are no errors and a \<open>Func\<close> is emitted if and only if the name of the
  function translates. A \<open>Func\<close> is emitted only when no error was recorded.
\<close>

theorem ImportFunction_error_aggregation:
  assumes "IsFromCurrentTarget ivc d" and "\<not> fd_isDeleted fd" and "\<not> fd_isTemplated fd"
    and "\<not> parent_is_unknown known fd"
    and "ImportFunction ivc known d fd = Inr result"
  shows "(import_params known pls params errs = Inr (params', errs') \<longrightarrow>
            errs' = errs @ concat (map (param_errors known) pls)) \<and>
         (is_non_public_method fd \<longrightarrow> result = LookupResult_none) \<and>
         (\<not> is_non_public_method fd \<and> collected_errors known fd \<noteq> [] \<longrightarrow>
            result = LookupResult_errors (collected_errors known fd)) \<and>
         (\<not> is_non_public_method fd \<and> collected_errors known fd = [] \<longrightarrow>
            errors result = [] \<and>
            ((\<exists>f. item result = Some (FuncItem f)) \<longleftrightarrow>
             GetTranslatedName (fd_named fd) \<noteq> None)) \<and>
         ((\<exists>f. item result = Some (FuncItem f)) \<longrightarrow> collected_errors known fd = [])"
proof -
  from assms have sig: "ImportFunction_signature ivc known d fd = Inr result"
    by (simp add: ImportFunction_gates)
  from ImportFunction_signature_Inr [OF sig] have res:
    "if is_non_public_method fd then result = LookupResult_none
     else if collected_errors known fd \<noteq> [] then
       result = LookupResult_errors (collected_errors known fd)
     else
       (case GetTranslatedName (fd_named fd) of
          None \<Rightarrow> result = LookupResult_none
        | Some n \<Rightarrow> (\<exists>f. result = LookupResult_item (FuncItem f)))"
    by (auto split: if_splits option.splits)
  have loop: "import_params known pls params errs = Inr (params', errs') \<longrightarrow>
            errs' = errs @ concat (map (param_errors known) pls)"
    using import_params_errors by blast
  from res have rest:
    "(is_non_public_method fd \<longrightarrow> result = LookupResult_none) \<and>
     (\<not> is_non_public_method fd \<and> collected_errors known fd \<noteq> [] \<longrightarrow>
        result = LookupResult_errors (collected_errors known fd)) \<and>
     (\<not> is_non_public_method fd \<and> collected_errors known fd = [] \<longrightarrow>
        errors result = [] \<and>
        ((\<exists>f. item result = Some (FuncItem f)) \<longleftrightarrow>
         GetTranslatedName (fd_named fd) \<noteq> None)) \<and>
     ((\<exists>f. item result = Some (FuncItem f)) \<longrightarrow> collected_errors known fd = [])"
    by (auto simp: LookupResult_none_def LookupResult_errors_def LookupResult_item_def
        split: if_splits option.splits)
  from loop rest show ?thesis by blast
qed

lemma ex_two_errors_result:
  "ImportFunction ex_invocation {10} (ex_common 12 RecordContext 5 6) ex_two_errors =
     Inr (LookupResult_errors
       [''Parameter type '' @ quoted ''U'' @ '' is not supported'',
        ''Parameter type '' @ quoted ''U'' @ '' is not supported''])"
  by (simp add: ex_private_method_def ex_operator_def ex_two_errors_def ex_defs type_mapper_defs function_importer_defs)

text \<open>
  A witness: a public static method with two parameters of unsupported types and a
  supported one between them yields both errors, in order, and no item.
\<close>

theorem ImportFunction_error_aggregation_witness:
  "ImportFunction ex_invocation {10} (ex_common 12 RecordContext 5 6) ex_two_errors =
     Inr (LookupResult_errors
       [''Parameter type '' @ quoted ''U'' @ '' is not supported'',
        ''Parameter type '' @ quoted ''U'' @ '' is not supported'']) \<and>
   collected_errors {10} ex_two_errors =
       [''Parameter type '' @ quoted ''U'' @ '' is not supported'',
        ''Parameter type '' @ quoted ''U'' @ '' is not supported'']"
proof -
  have g: "IsFromCurrentTarget ex_invocation (ex_common 12 RecordContext 5 6)"
    "\<not> fd_isDeleted ex_two_errors" "\<not> fd_isTemplated ex_two_errors"
    "\<not> parent_is_unknown {10} ex_two_errors"
    by (simp_all add: ex_private_method_def ex_operator_def ex_two_errors_def ex_defs function_importer_defs)
  have np: "\<not> is_non_public_method ex_two_errors"
    by (simp add: ex_private_method_def ex_operator_def ex_two_errors_def ex_defs function_importer_defs)
  have ne: "collected_errors {10} ex_two_errors \<noteq> []"
    by (simp add: ex_private_method_def ex_operator_def ex_two_errors_def ex_defs type_mapper_defs function_importer_defs
        function_wording_defs)
  from ImportFunction_error_aggregation [OF g ex_two_errors_result] np ne
  have "LookupResult_errors
       [''Parameter type '' @ quoted ''U'' @ '' is not supported'',
        ''Parameter type '' @ quoted ''U'' @ '' is not supported''] =
     LookupResult_errors (collected_errors {10} ex_two_errors)"
    by blast
  then show ?thesis
    using ex_two_errors_result by (simp add: LookupResult_errors_def)
qed

subsection \<open>The implicit parameter of a member function\<close>

lemma ex_method_result:
  "ImportFunction ex_invocation {10} (ex_common 12 RecordContext 5 6) ex_method =
     Inr (LookupResult_item (FuncItem ex_method_func))"
  by (simp add: ex_method_func_def ex_defs type_mapper_defs function_importer_defs)


lemma length_formal_slots:
  "\<forall>l. fd_lifetimes fd = Some l \<longrightarrow> length (param_lifetimes l) = length (fd_params fd) \<Longrightarrow>
   length (formal_slots fd) = length (fd_params fd)"
  by (auto simp: formal_slots_def param_lifetime_slots_def split: option.splits)

lemma ConvertType_pointer_nullable:
  "well_known_find (unqualified_string qt) = None \<Longrightarrow> as_pointer qt = Some p \<Longrightarrow>
   ConvertType known qt lts nl = Inr (Ok t) \<Longrightarrow> \<exists>pt lt c. t = PointerType pt lt nl c"
  by (cases qt)
     (auto simp: finish_type_Ok PointerTo_def split: sum.splits StatusOr.splits prod.splits)

text \<open>
  C7: every imported non-static member function has a first parameter with the identifier
  \<open>__this\<close>, whose type is the method's this-type converted with the lifetimes of
  \<open>this\<close> and with the nullable flag false (so a pointer type that is not nullable); it
  precedes the conversions of all formal parameters, in their order. A function that is
  not a non-static member function has the conversions of its formal parameters only.
\<close>

theorem ImportFunction_this_parameter:
  assumes "ImportFunction ivc known d fd = Inr result"
    and "item result = Some (FuncItem f)"
  shows "(is_instance_method fd \<longrightarrow>
            (\<exists>md this_type formals.
               fd_method fd = Some md \<and>
               ConvertType known (md_this_type md)
                 (map_option this_lifetimes (fd_lifetimes fd)) False = Inr (Ok this_type) \<and>
               (well_known_find (unqualified_string (md_this_type md)) = None \<and>
                as_pointer (md_this_type md) \<noteq> None \<longrightarrow>
                  (\<exists>pt lt c. this_type = PointerType pt lt False c)) \<and>
               func_params f = \<lparr>fp_type = this_type, fp_identifier = ''__this''\<rparr> # formals \<and>
               length formals = length (fd_params fd) \<and>
               list_all2 (formal_param_of known) (formal_slots fd) formals)) \<and>
         (\<not> is_instance_method fd \<longrightarrow>
            length (func_params f) = length (fd_params fd) \<and>
            list_all2 (formal_param_of known) (formal_slots fd) (func_params f))"
proof -
  from ImportFunction_Func [OF assms] obtain params0 formals where
    t: "import_implicit_this known fd = Inr (params0, [])"
    and p: "func_params f = params0 @ formals"
    and a: "list_all2 (formal_param_of known) (formal_slots fd) formals"
    and len: "\<forall>l. fd_lifetimes fd = Some l \<longrightarrow> length (param_lifetimes l) = length (fd_params fd)"
    by blast
  from a have lf: "length formals = length (fd_params fd)"
    using length_formal_slots [OF len] by (simp add: list_all2_lengthD [symmetric])
  note th = import_implicit_this_instance [OF t]
  show ?thesis
  proof (cases "is_instance_method fd")
    case True
    with th obtain md ty where md: "fd_method fd = Some md"
      and c: "ConvertType known (md_this_type md)
                (map_option this_lifetimes (fd_lifetimes fd)) False = Inr (Ok ty)"
      and p0: "params0 = [\<lparr>fp_type = ty, fp_identifier = ''__this''\<rparr>]"
      by auto
    have n: "well_known_find (unqualified_string (md_this_type md)) = None \<and>
             as_pointer (md_this_type md) \<noteq> None \<longrightarrow>
             (\<exists>pt lt c. ty = PointerType pt lt False c)"
      using ConvertType_pointer_nullable [OF _ _ c] by auto
    from md c n p p0 lf a True show ?thesis by auto
  next
    case False
    with th have "params0 = []" by simp
    with p lf a False show ?thesis by simp
  qed
qed

text \<open>
  A witness: the method \<^verbatim>\<open>int& S::method(int& p1, int& p2)\<close> is imported with the
  parameters \<open>__this\<close>, \<open>p1\<close> and \<open>p2\<close>; the type of \<open>__this\<close> is a pointer that is not
  nullable and carries the lifetime of \<open>this\<close>.
\<close>

theorem ImportFunction_this_parameter_witness:
  "ImportFunction ex_invocation {10} (ex_common 12 RecordContext 5 6) ex_method =
     Inr (LookupResult_item (FuncItem ex_method_func)) \<and>
   is_instance_method ex_method \<and>
   (\<exists>formals.
      func_params ex_method_func =
        \<lparr>fp_type = PointerType (DeclIdsType ''S'' 10 ''S'' 10 False) (Some 1) False False,
         fp_identifier = ''__this''\<rparr> # formals \<and>
      length formals = 2)"
proof -
  have i: "item (LookupResult_item (FuncItem ex_method_func)) = Some (FuncItem ex_method_func)"
    by (simp add: LookupResult_item_def)
  have m: "is_instance_method ex_method"
    by (simp add: ex_defs is_instance_method_def)
  from ImportFunction_this_parameter [OF ex_method_result i] m
  obtain this_type formals where
    "func_params ex_method_func = \<lparr>fp_type = this_type, fp_identifier = ''__this''\<rparr> # formals"
    "length formals = length (fd_params ex_method)"
    by blast
  then show ?thesis
    using ex_method_result m by (simp add: ex_method_func_def ex_method_def)
qed


subsection \<open>The lifetime parameters of a function\<close>

lemma name_lifetimes_ids: "name_lifetimes tab ls = Inr xs \<Longrightarrow> map lt_id xs = ls"
  by (induction ls arbitrary: xs) (auto split: option.splits sum.splits)

lemma make_lifetime_params_sorted:
  "make_lifetime_params fd = Inr lps \<Longrightarrow>
   sorted (map lt_name lps) \<and> set (map lt_id lps) = set (all_lifetimes fd)"
proof -
  assume a: "make_lifetime_params fd = Inr lps"
  then obtain xs where x: "name_lifetimes (fd_lifetime_symbol_table fd) (all_lifetimes fd) = Inr xs"
    and l: "lps = sort_key lt_name xs"
    by (auto simp: make_lifetime_params_def split: sum.splits)
  have "set (map lt_id lps) = set (map lt_id xs)"
    using l by simp
  with name_lifetimes_ids [OF x] l show ?thesis by simp
qed

lemma ConvertType_exact:
  assumes "ConvertType known qt (Some ls) nl = Inr (Ok t)"
    and "length ls = pointer_levels qt"
  shows "ls = rev (type_lifetimes t)"
proof -
  from ConvertType_Some_lifetimes [OF assms(1)] obtain pre where
    p: "ls = pre @ rev (type_lifetimes t)" by blast
  from ConvertType_levels [OF assms(1)] assms(2) have "length (type_lifetimes t) = length ls"
    by simp
  with p show ?thesis by (metis append_eq_append_conv length_rev self_append_conv2)
qed

lemma ConvertType_lifetimes_subset:
  "ConvertType known qt (Some ls) nl = Inr (Ok t) \<Longrightarrow> set (type_lifetimes t) \<subseteq> set ls"
  using ConvertType_Some_lifetimes [of known qt ls nl t] by auto

lemma formals_lifetimes_subset:
  "list_all2 (formal_param_of known) (zip ps (map Some lss)) formals \<Longrightarrow>
   length lss = length ps \<Longrightarrow>
   set (concat (map (\<lambda>fp. type_lifetimes (fp_type fp)) formals)) \<subseteq> set (concat lss)"
proof (induction ps arbitrary: lss formals)
  case Nil
  then show ?case by simp
next
  case (Cons p ps)
  from Cons.prems(2) obtain ls lss' where lss: "lss = ls # lss'" and len: "length lss' = length ps"
    by (cases lss) auto
  from Cons.prems(1) lss obtain fp formals' where f: "formals = fp # formals'"
    and h: "formal_param_of known (p, Some ls) fp"
    and r: "list_all2 (formal_param_of known) (zip ps (map Some lss')) formals'"
    by (auto simp: list_all2_Cons1)
  from h have "set (type_lifetimes (fp_type fp)) \<subseteq> set ls"
    by (auto simp: formal_param_of_def dest: ConvertType_lifetimes_subset)
  with Cons.IH [OF r len] f lss show ?case by auto
qed

lemma formals_lifetimes_exact:
  "list_all2 (formal_param_of known) (zip ps (map Some lss)) formals \<Longrightarrow>
   list_all2 (\<lambda>param lts. length lts = pointer_levels (pv_type param)) ps lss \<Longrightarrow>
   set (concat (map (\<lambda>fp. type_lifetimes (fp_type fp)) formals)) = set (concat lss)"
proof (induction ps arbitrary: lss formals)
  case Nil
  then show ?case by simp
next
  case (Cons p ps)
  from Cons.prems(2) obtain ls lss' where lss: "lss = ls # lss'"
    and l: "length ls = pointer_levels (pv_type p)"
    and len: "list_all2 (\<lambda>param lts. length lts = pointer_levels (pv_type param)) ps lss'"
    by (auto simp: list_all2_Cons1)
  from Cons.prems(1) lss obtain fp formals' where f: "formals = fp # formals'"
    and h: "formal_param_of known (p, Some ls) fp"
    and r: "list_all2 (formal_param_of known) (zip ps (map Some lss')) formals'"
    by (auto simp: list_all2_Cons1)
  from h l have "ls = rev (type_lifetimes (fp_type fp))"
    by (auto simp: formal_param_of_def dest: ConvertType_exact)
  then have "set (type_lifetimes (fp_type fp)) = set ls"
    by (metis set_rev)
  with Cons.IH [OF r len] f lss show ?case by auto
qed

lemma formals_no_lifetimes:
  "list_all2 (formal_param_of known) (zip ps (replicate n None)) formals \<Longrightarrow>
   concat (map (\<lambda>fp. type_lifetimes (fp_type fp)) formals) = []"
proof (induction ps arbitrary: n formals)
  case Nil
  then show ?case by simp
next
  case (Cons p ps)
  show ?case
  proof (cases n)
    case 0
    with Cons.prems show ?thesis by simp
  next
    case (Suc m)
    with Cons.prems obtain fp formals' where f: "formals = fp # formals'"
      and h: "formal_param_of known (p, None) fp"
      and r: "list_all2 (formal_param_of known) (zip ps (replicate m None)) formals'"
      by (auto simp: list_all2_Cons1)
    from h have "type_lifetimes (fp_type fp) = []"
      by (auto simp: formal_param_of_def dest: ConvertType_None_lifetimes)
    with Cons.IH [OF r] f show ?thesis by simp
  qed
qed


text \<open>
  C5, as the claim states it, fails when the answer of the oracle has a lifetime that no
  pointer or reference level of the signature takes: every lifetime of the answer becomes
  a lifetime parameter. For \<^verbatim>\<open>void f(int x)\<close> and an answer with the lifetime \<open>a\<close>
  for \<open>x\<close>, the \<open>Func\<close> has the lifetime parameter \<open>a\<close> and no lifetime id in
  its signature.
\<close>

theorem Func_lifetime_params_counterexample:
  "ImportFunction ex_invocation {} (ex_common 16 TranslationUnitContext 5 6) ex_extra_lifetime =
     Inr (LookupResult_item (FuncItem ex_extra_lifetime_func)) \<and>
   set (map lt_id (func_lifetime_params ex_extra_lifetime_func)) = {7} \<and>
   set (signature_lifetimes ex_extra_lifetime_func) = {}"
  by (simp add: ex_extra_lifetime_def ex_extra_lifetime_func_def ex_defs type_mapper_defs
      function_importer_defs signature_lifetimes_def)

text \<open>
  C5 (amended): for every emitted \<open>Func\<close>, the lifetime parameters are sorted ascending
  by name, and the set of their ids is the set of the lifetimes in the answer of the
  oracle for the signature (for \<open>this\<close> of a non-static member function, for every
  parameter and for the return type). Every lifetime id in the types of the signature (the
  \<open>__this\<close> parameter, the formal parameters, the return type) is among them; and the
  two sets of ids are equal when the answer has exactly one lifetime for each pointer or
  reference level of each type.
\<close>

theorem Func_lifetime_params:
  assumes "ImportFunction ivc known d fd = Inr result"
    and "item result = Some (FuncItem f)"
  shows "sorted (map lt_name (func_lifetime_params f)) \<and>
         set (map lt_id (func_lifetime_params f)) = set (all_lifetimes fd) \<and>
         set (signature_lifetimes f) \<subseteq> set (map lt_id (func_lifetime_params f)) \<and>
         (oracle_one_lifetime_per_level fd \<longrightarrow>
            set (map lt_id (func_lifetime_params f)) = set (signature_lifetimes f))"
proof -
  from ImportFunction_Func [OF assms] obtain params0 formals where
    t: "import_implicit_this known fd = Inr (params0, [])"
    and p: "func_params f = params0 @ formals"
    and a: "list_all2 (formal_param_of known) (formal_slots fd) formals"
    and r: "ConvertType known (fd_return_type fd)
              (map_option return_lifetimes (fd_lifetimes fd)) True =
            Inr (Ok (func_return_type f))"
    and l: "make_lifetime_params fd = Inr (func_lifetime_params f)"
    and len: "\<forall>l. fd_lifetimes fd = Some l \<longrightarrow> length (param_lifetimes l) = length (fd_params fd)"
    by blast
  note th = import_implicit_this_instance [OF t]
  from make_lifetime_params_sorted [OF l] have
    srt: "sorted (map lt_name (func_lifetime_params f))"
    and ids: "set (map lt_id (func_lifetime_params f)) = set (all_lifetimes fd)"
    by simp_all
  let ?T = "set (concat (map (\<lambda>fp. type_lifetimes (fp_type fp)) params0))"
  let ?F = "set (concat (map (\<lambda>fp. type_lifetimes (fp_type fp)) formals))"
  let ?R = "set (type_lifetimes (func_return_type f))"
  have sig: "set (signature_lifetimes f) = ?T \<union> ?F \<union> ?R"
    using p by (auto simp: signature_lifetimes_def)
  show ?thesis
  proof (cases "fd_lifetimes fd")
    case None
    have "?T = {}"
      using th None by (auto dest: ConvertType_None_lifetimes split: if_splits)
    moreover have "?F = {}"
      using a None formals_no_lifetimes [of known "fd_params fd" "length (fd_params fd)" formals]
      by (simp add: formal_slots_def param_lifetime_slots_def)
    moreover have "?R = {}"
      using r None by (auto dest: ConvertType_None_lifetimes)
    moreover have "all_lifetimes fd = []"
      using None by (simp add: all_lifetimes_def)
    ultimately show ?thesis using srt ids sig by simp
  next
    case (Some lts)
    with len have leq: "length (param_lifetimes lts) = length (fd_params fd)" by simp
    have slots: "formal_slots fd = zip (fd_params fd) (map Some (param_lifetimes lts))"
      using Some by (simp add: formal_slots_def param_lifetime_slots_def)
    have all: "set (all_lifetimes fd) =
        (if is_instance_method fd then set (this_lifetimes lts) else {}) \<union>
        set (concat (param_lifetimes lts)) \<union> set (return_lifetimes lts)"
      using Some by (auto simp: all_lifetimes_def)
    have T_sub: "?T \<subseteq> (if is_instance_method fd then set (this_lifetimes lts) else {})"
      using th Some by (auto dest!: ConvertType_lifetimes_subset split: if_splits)
    have F_sub: "?F \<subseteq> set (concat (param_lifetimes lts))"
      using formals_lifetimes_subset [OF a [unfolded slots] leq] .
    have R_sub: "?R \<subseteq> set (return_lifetimes lts)"
      using r Some by (auto dest!: ConvertType_lifetimes_subset)
    have sub: "set (signature_lifetimes f) \<subseteq> set (map lt_id (func_lifetime_params f))"
      using T_sub F_sub R_sub unfolding sig ids all by blast
    have exact: "set (map lt_id (func_lifetime_params f)) = set (signature_lifetimes f)"
      if o: "oracle_one_lifetime_per_level fd"
    proof -
      from o Some have
        ot: "\<And>md. fd_method fd = Some md \<Longrightarrow> md_isInstance md \<Longrightarrow>
              length (this_lifetimes lts) = pointer_levels (md_this_type md)"
        and op: "list_all2 (\<lambda>param ls. length ls = pointer_levels (pv_type param))
              (fd_params fd) (param_lifetimes lts)"
        and orl: "length (return_lifetimes lts) = pointer_levels (fd_return_type fd)"
        by (auto simp: oracle_one_lifetime_per_level_def split: option.splits)
      have T_eq: "?T = (if is_instance_method fd then set (this_lifetimes lts) else {})"
      proof (cases "is_instance_method fd")
        case True
        with th obtain md ty where md: "fd_method fd = Some md"
          and c: "ConvertType known (md_this_type md)
                    (map_option this_lifetimes (fd_lifetimes fd)) False = Inr (Ok ty)"
          and p0: "params0 = [\<lparr>fp_type = ty, fp_identifier = ''__this''\<rparr>]"
          by auto
        from True md have "md_isInstance md" by (simp add: is_instance_method_def)
        from ConvertType_exact [OF c [unfolded Some, simplified] ot [OF md this]]
        have "set (this_lifetimes lts) = set (type_lifetimes ty)" by (metis set_rev)
        with True p0 show ?thesis by simp
      next
        case False
        with th show ?thesis by simp
      qed
      have F_eq: "?F = set (concat (param_lifetimes lts))"
        using formals_lifetimes_exact [OF a [unfolded slots] op] .
      have "return_lifetimes lts = rev (type_lifetimes (func_return_type f))"
        using ConvertType_exact [OF r [unfolded Some, simplified] orl] .
      then have R_eq: "?R = set (return_lifetimes lts)" by (metis set_rev)
      show ?thesis unfolding sig ids all T_eq F_eq R_eq by simp
    qed
    from srt ids sub exact show ?thesis by blast
  qed
qed

text \<open>
  A witness: the lifetime parameters of \<^verbatim>\<open>int& S::method(int& p1, int& p2)\<close> are
  \<open>a\<close>, \<open>b\<close>, \<open>c\<close> with the ids 1, 2, 3, the ids of its signature.
\<close>

theorem Func_lifetime_params_witness:
  "ImportFunction ex_invocation {10} (ex_common 12 RecordContext 5 6) ex_method =
     Inr (LookupResult_item (FuncItem ex_method_func)) \<and>
   oracle_one_lifetime_per_level ex_method \<and>
   map lt_name (func_lifetime_params ex_method_func) = [''a'', ''b'', ''c''] \<and>
   sorted (map lt_name (func_lifetime_params ex_method_func)) \<and>
   set (map lt_id (func_lifetime_params ex_method_func)) = {1, 2, 3} \<and>
   set (signature_lifetimes ex_method_func) = {1, 2, 3}"
proof -
  have i: "item (LookupResult_item (FuncItem ex_method_func)) = Some (FuncItem ex_method_func)"
    by (simp add: LookupResult_item_def)
  have o: "oracle_one_lifetime_per_level ex_method"
    by (simp add: ex_defs oracle_one_lifetime_per_level_def well_known_contains_def
        well_known_find_def kWellKnownTypes_def)
  have s: "set (signature_lifetimes ex_method_func) = {1, 2, 3}"
    by (auto simp: signature_lifetimes_def ex_method_func_def)
  from Func_lifetime_params [OF ex_method_result i] o s show ?thesis
    using ex_method_result by (simp add: ex_method_func_def)
qed

subsection \<open>Failure of the lifetime oracle\<close>

lemma ConvertType_erase_Ok:
  "ConvertType known qt lts nl = Inr (Ok t) \<Longrightarrow>
   ConvertType known qt None nl = Inr (Ok (erase_lifetimes t))"
  using ConvertType_erase [of known qt lts nl t undefined] by simp

lemma ConvertType_erase_NotOk:
  "ConvertType known qt lts nl = Inr (NotOk e) \<Longrightarrow> ConvertType known qt None nl = Inr (NotOk e)"
  using ConvertType_erase [of known qt lts nl undefined e] by simp

lemma import_implicit_this_erase:
  "import_implicit_this known fd = Inr (p0, e0) \<Longrightarrow>
   import_implicit_this known (fd\<lparr>fd_lifetimes := None\<rparr>) = Inr (map erase_param p0, e0)"
  by (auto simp: import_implicit_this_def import_this_param_def erase_param_def
      dest: ConvertType_erase_Ok ConvertType_erase_NotOk
      split: option.splits if_splits sum.splits StatusOr.splits)

lemma import_params_erase:
  "import_params known pls params errs = Inr (params', errs') \<Longrightarrow>
   import_params known (map (\<lambda>pl. (fst pl, None)) pls) (map erase_param params) errs =
     Inr (map erase_param params', errs')"
proof (induction pls arbitrary: params errs)
  case Nil
  then show ?case by simp
next
  case (Cons pl pls)
  obtain param lts where pl: "pl = (param, lts)" by (cases pl)
  show ?case
  proof (cases "ConvertType known (pv_type param) lts True")
    case (Inl f)
    with Cons.prems pl show ?thesis by simp
  next
    case (Inr res)
    show ?thesis
    proof (cases res)
      case (NotOk st)
      with Inr have "ConvertType known (pv_type param) None True = Inr (NotOk st)"
        by (simp add: ConvertType_erase_NotOk)
      with Cons.prems pl Inr NotOk Cons.IH show ?thesis by simp
    next
      case (Ok ty)
      with Inr have c: "ConvertType known (pv_type param) None True = Inr (Ok (erase_lifetimes ty))"
        by (simp add: ConvertType_erase_Ok)
      from Cons.prems pl Inr Ok obtain nm where
        n: "GetTranslatedIdentifier (pv_named param) = Some nm"
        by (auto simp: Let_def split: option.splits)
      let ?E = "case as_record_canPassInRegisters (pv_type param) of
               Some False \<Rightarrow>
                 errs @ [''Non-trivial_abi type '' @ quoted (as_string (pv_type param)) @
                         '' is not supported by value as a parameter'']
             | _ \<Rightarrow> errs"
      from Cons.prems pl Inr Ok n have
        r: "import_params known pls (params @ [\<lparr>fp_type = ty, fp_identifier = nm\<rparr>]) ?E =
              Inr (params', errs')"
        by (simp add: Let_def)
      have e: "erase_param \<lparr>fp_type = ty, fp_identifier = nm\<rparr> =
               \<lparr>fp_type = erase_lifetimes ty, fp_identifier = nm\<rparr>"
        by (simp add: erase_param_def)
      from Cons.IH [OF r] pl c n show ?thesis
        by (simp add: Let_def e)
    qed
  qed
qed

lemma erase_slots:
  "length slots = length ps \<Longrightarrow>
   map (\<lambda>pl. (fst pl, None)) (zip ps slots) = zip ps (replicate (length ps) None)"
  by (induction ps arbitrary: slots) (auto simp: length_Suc_conv)

lemma formal_slots_erase:
  "\<forall>l. fd_lifetimes fd = Some l \<longrightarrow> length (param_lifetimes l) = length (fd_params fd) \<Longrightarrow>
   formal_slots (fd\<lparr>fd_lifetimes := None\<rparr>) = map (\<lambda>pl. (fst pl, None)) (formal_slots fd)"
  by (auto simp: formal_slots_def param_lifetime_slots_def erase_slots split: option.splits)

lemma make_lifetime_params_None:
  "fd_lifetimes fd = None \<Longrightarrow> make_lifetime_params fd = Inr []"
  by (simp add: make_lifetime_params_def all_lifetimes_def)

lemma import_params_None_fatal:
  "import_params known (zip ps (replicate n None)) params errs = Inl x \<Longrightarrow>
   x = CheckFailed ''param_name.has_value()''"
proof (induction ps arbitrary: n params errs)
  case Nil
  then show ?case by simp
next
  case (Cons p ps)
  show ?case
  proof (cases n)
    case 0
    with Cons.prems show ?thesis by simp
  next
    case (Suc m)
    with Cons.prems Cons.IH [of m] show ?thesis
      by (auto simp: Let_def ConvertType_None_not_fatal
          split: sum.splits StatusOr.splits option.splits)
  qed
qed


lemma ImportFunction_signature_erase:
  assumes "ImportFunction_signature ivc known d fd = Inr r"
  shows "ImportFunction_signature ivc known d (fd\<lparr>fd_lifetimes := None\<rparr>) = Inr (erase_result r)"
proof -
  let ?fd = "fd\<lparr>fd_lifetimes := None\<rparr>"
  from assms obtain params0 errors0 where
    t: "import_implicit_this known fd = Inr (params0, errors0)"
    by (auto simp: ImportFunction_signature_def Let_def split: sum.splits)
  from assms t have len:
    "\<forall>l. fd_lifetimes fd = Some l \<longrightarrow> length (param_lifetimes l) = length (fd_params fd)"
    by (auto simp: ImportFunction_signature_def Let_def split: if_splits)
  then have nolen: "\<not> (case fd_lifetimes fd of
                Some l \<Rightarrow> length (param_lifetimes l) \<noteq> length (fd_params fd)
              | None \<Rightarrow> False)"
    by (auto split: option.splits)
  from assms t nolen obtain params errors1 where
    p: "import_params known (formal_slots fd) params0 errors0 = Inr (params, errors1)"
    by (auto simp: ImportFunction_signature_def Let_def formal_slots_def split: sum.splits)
  from assms t nolen p obtain return_type where
    rt: "ConvertType known (fd_return_type fd) (map_option return_lifetimes (fd_lifetimes fd))
           True = Inr return_type"
    by (auto simp: ImportFunction_signature_def Let_def formal_slots_def split: sum.splits)
  from assms t nolen p rt obtain lps where
    l: "make_lifetime_params fd = Inr lps"
    by (auto simp: ImportFunction_signature_def Let_def formal_slots_def split: sum.splits)
  have t': "import_implicit_this known ?fd = Inr (map erase_param params0, errors0)"
    using t by (rule import_implicit_this_erase)
  have p': "import_params known (formal_slots ?fd) (map erase_param params0) errors0 =
              Inr (map erase_param params, errors1)"
    using import_params_erase [OF p] formal_slots_erase [OF len] by simp
  have p'': "import_params known
               (zip (fd_params fd) (param_lifetime_slots None (length (fd_params fd))))
               (map erase_param params0) errors0 = Inr (map erase_param params, errors1)"
    using p' by (simp add: formal_slots_def)
  have rt': "ConvertType known (fd_return_type fd) None True =
               Inr (case return_type of Ok ty \<Rightarrow> Ok (erase_lifetimes ty) | NotOk e \<Rightarrow> NotOk e)"
    using rt by (auto dest: ConvertType_erase_Ok ConvertType_erase_NotOk split: StatusOr.splits)
  have l': "make_lifetime_params ?fd = Inr []"
    by (simp add: make_lifetime_params_None)
  have np: "is_non_public_method ?fd = is_non_public_method fd"
    by (simp add: is_non_public_method_def)
  have rte: "return_type_errors (fd_return_type fd)
               (case return_type of Ok ty \<Rightarrow> Ok (erase_lifetimes ty) | NotOk e \<Rightarrow> NotOk e) =
             return_type_errors (fd_return_type fd) return_type"
    by (simp add: return_type_errors_def split: StatusOr.splits)
  from assms t nolen p rt l have res:
    "(if is_non_public_method fd then Inr LookupResult_none
      else if errors1 @ return_type_abi_errors (fd_return_type fd) @
              return_type_errors (fd_return_type fd) return_type \<noteq> [] then
        Inr (LookupResult_errors
               (errors1 @ return_type_abi_errors (fd_return_type fd) @
                return_type_errors (fd_return_type fd) return_type))
      else
        (case return_type of
           NotOk _ \<Rightarrow> Inl (CheckFailed ''return_type.ok()'')
         | Ok rt \<Rightarrow>
             (case GetTranslatedName (fd_named fd) of
                None \<Rightarrow> Inr LookupResult_none
              | Some translated_name \<Rightarrow>
                  Inr (LookupResult_item (FuncItem
                    \<lparr>func_name = translated_name,
                     func_owning_target = GetOwningTarget ivc (dc_location d),
                     func_doc_comment = GetComment d,
                     func_mangled_name = fd_mangled_name fd,
                     func_return_type = rt,
                     func_params = params,
                     func_lifetime_params = lps,
                     func_is_inline = fd_isInlined fd,
                     func_member_func_metadata =
                       map_option make_member_func_metadata (fd_method fd),
                     func_source_loc = ConvertSourceLocation d\<rparr>))))) = Inr r"
    by (simp add: ImportFunction_signature_def Let_def formal_slots_def [symmetric])
  have "ImportFunction_signature ivc known d ?fd =
    (if is_non_public_method fd then Inr LookupResult_none
      else if errors1 @ return_type_abi_errors (fd_return_type fd) @
              return_type_errors (fd_return_type fd) return_type \<noteq> [] then
        Inr (LookupResult_errors
               (errors1 @ return_type_abi_errors (fd_return_type fd) @
                return_type_errors (fd_return_type fd) return_type))
      else
        (case return_type of
           NotOk _ \<Rightarrow> Inl (CheckFailed ''return_type.ok()'')
         | Ok rt \<Rightarrow>
             (case GetTranslatedName (fd_named fd) of
                None \<Rightarrow> Inr LookupResult_none
              | Some translated_name \<Rightarrow>
                  Inr (LookupResult_item (FuncItem
                    \<lparr>func_name = translated_name,
                     func_owning_target = GetOwningTarget ivc (dc_location d),
                     func_doc_comment = GetComment d,
                     func_mangled_name = fd_mangled_name fd,
                     func_return_type = erase_lifetimes rt,
                     func_params = map erase_param params,
                     func_lifetime_params = [],
                     func_is_inline = fd_isInlined fd,
                     func_member_func_metadata =
                       map_option make_member_func_metadata (fd_method fd),
                     func_source_loc = ConvertSourceLocation d\<rparr>)))))"
    using t' p'' rt' l' np rte
    by (auto simp: ImportFunction_signature_def Let_def return_type_errors_def
        split: StatusOr.splits option.splits)
  with res show ?thesis
    by (auto simp: erase_result_def erase_func_def LookupResult_none_def LookupResult_errors_def
        LookupResult_item_def split: if_splits option.splits StatusOr.splits)
qed


lemma ImportFunction_erase:
  assumes "ImportFunction ivc known d fd = Inr r"
  shows "ImportFunction ivc known d (fd\<lparr>fd_lifetimes := None\<rparr>) = Inr (erase_result r)"
proof (cases "\<not> IsFromCurrentTarget ivc d \<or> fd_isDeleted fd \<or> fd_isTemplated fd \<or>
              parent_is_unknown known fd")
  case True
  with assms show ?thesis
    by (auto simp: ImportFunction_def parent_is_unknown_def erase_result_def
        LookupResult_none_def LookupResult_error_def split: if_splits)
next
  case False
  with assms have "ImportFunction_signature ivc known d fd = Inr r"
    by (simp add: ImportFunction_def)
  from ImportFunction_signature_erase [OF this] False show ?thesis
    by (simp add: ImportFunction_def parent_is_unknown_def)
qed

lemma type_lifetimes_erase [simp]: "type_lifetimes (erase_lifetimes t) = []"
  by (induction t) simp_all

lemma signature_lifetimes_erase: "signature_lifetimes (erase_func f) = []"
  by (simp add: signature_lifetimes_def erase_func_def erase_param_def)

lemma ImportFunction_signature_None_fatal:
  assumes "fd_lifetimes fd = None"
    and "ImportFunction_signature ivc known d fd = Inl x"
  shows "x = CheckFailed ''param_name.has_value()''"
proof -
  have t: "import_implicit_this known fd \<noteq> Inl y" for y
    using assms(1)
    by (auto simp: import_implicit_this_def import_this_param_def ConvertType_None_not_fatal
        split: option.splits sum.splits StatusOr.splits)
  have l: "make_lifetime_params fd = Inr []"
    using assms(1) by (rule make_lifetime_params_None)
  have r: "ConvertType known (fd_return_type fd) None True \<noteq> Inl y" for y
    by (rule ConvertType_None_not_fatal)
  from assms t l r show ?thesis
    by (auto simp: ImportFunction_signature_def Let_def param_lifetime_slots_def
        return_type_errors_def
        dest: import_params_None_fatal
        split: sum.splits prod.splits if_splits option.splits StatusOr.splits)
qed

lemma ImportFunction_symbol_table:
  "fd_lifetimes fd = None \<Longrightarrow>
   ImportFunction ivc known d (fd\<lparr>fd_lifetime_symbol_table := tab\<rparr>) =
   ImportFunction ivc known d fd"
  by (simp add: ImportFunction_def ImportFunction_signature_def parent_is_unknown_def
      import_implicit_this_def is_non_public_method_def make_lifetime_params_def
      all_lifetimes_def
      cong: sum.case_cong option.case_cong if_cong StatusOr.case_cong prod.case_cong)

lemma import_params_None_returns:
  "\<forall>p \<in> set ps. GetTranslatedIdentifier (pv_named p) \<noteq> None \<Longrightarrow>
   \<exists>res. import_params known (zip ps (replicate n None)) params errs = Inr res"
proof (induction ps arbitrary: n params errs)
  case Nil
  then show ?case by simp
next
  case (Cons p ps)
  show ?case
  proof (cases n)
    case 0
    then show ?thesis by simp
  next
    case (Suc m)
    from Cons.prems obtain nm where nm: "GetTranslatedIdentifier (pv_named p) = Some nm"
      by auto
    from Cons.prems have rest: "\<forall>p \<in> set ps. GetTranslatedIdentifier (pv_named p) \<noteq> None"
      by simp
    show ?thesis
    proof (cases "ConvertType known (pv_type p) None True")
      case (Inl f)
      then show ?thesis by (simp add: ConvertType_None_not_fatal)
    next
      case (Inr res)
      with Suc nm Cons.IH [OF rest, of m] show ?thesis
        by (cases res) (simp_all add: Let_def)
    qed
  qed
qed

lemma ImportFunction_signature_None_returns:
  assumes "fd_lifetimes fd = None"
    and "\<forall>p \<in> set (fd_params fd). GetTranslatedIdentifier (pv_named p) \<noteq> None"
  shows "\<exists>result. ImportFunction_signature ivc known d fd = Inr result"
proof -
  obtain p0 e0 where t: "import_implicit_this known fd = Inr (p0, e0)"
    using assms(1)
    by (cases "import_implicit_this known fd")
       (auto simp: import_implicit_this_def import_this_param_def ConvertType_None_not_fatal
        split: option.splits sum.splits StatusOr.splits if_splits)
  from import_params_None_returns [OF assms(2)] obtain params errs1 where
    p: "import_params known (zip (fd_params fd) (replicate (length (fd_params fd)) None)) p0 e0 =
          Inr (params, errs1)"
    by (metis surj_pair)
  obtain rt where r: "ConvertType known (fd_return_type fd) None True = Inr rt"
    by (cases "ConvertType known (fd_return_type fd) None True")
       (simp_all add: ConvertType_None_not_fatal)
  have l: "make_lifetime_params fd = Inr []"
    using assms(1) by (rule make_lifetime_params_None)
  from assms(1) t p r l show ?thesis
    by (cases rt)
       (auto simp: ImportFunction_signature_def Let_def param_lifetime_slots_def
        return_type_errors_def split: option.splits)
qed

lemma ImportFunction_None_returns:
  assumes "fd_lifetimes fd = None"
    and "\<forall>p \<in> set (fd_params fd). GetTranslatedIdentifier (pv_named p) \<noteq> None"
  shows "\<exists>result. ImportFunction ivc known d fd = Inr result"
  using ImportFunction_signature_None_returns [OF assms, of ivc known d]
  by (auto simp: ImportFunction_def)

lemma zip_replicate_None:
  "zip ps (replicate (length ps) None) = map (\<lambda>p. (p, None)) ps"
  by (induction ps) simp_all

lemma formals_without_lifetimes:
  "list_all2 (formal_param_of known) (zip ps (replicate (length ps) None)) formals \<Longrightarrow>
   list_all2 (\<lambda>p fp. formal_param_of known (p, None) fp) ps formals"
  by (simp add: zip_replicate_None list_all2_map1)

text \<open>
  C9: when the lifetime oracle fails, the function is imported all the same. The import
  returns whenever every parameter has a translated name, and the only \<^verbatim>\<open>CHECK\<close> that
  can end the run is the one on the name of a parameter: none is on lifetimes. A function
  that passes the gates, is not a non-public method, has no error in the types of its
  signature and has a translated name is emitted as a \<open>Func\<close>: its return type, its
  formal parameters and its \<open>__this\<close> parameter are the conversions without
  lifetimes, no pointer or reference in it has a lifetime id, and its lifetime parameters
  are empty. Every emitted \<open>Func\<close> has no lifetime id and no lifetime parameter. And
  the failure alone adds no error: the result is the one any successful answer of the
  oracle would give, with the lifetimes removed, the same errors or the same \<open>Func\<close>
  without its lifetimes.
\<close>

theorem ImportFunction_oracle_failure:
  assumes "fd_lifetimes fd = None"
  shows "((\<forall>p \<in> set (fd_params fd). GetTranslatedIdentifier (pv_named p) \<noteq> None) \<longrightarrow>
            (\<exists>result. ImportFunction ivc known d fd = Inr result)) \<and>
         (ImportFunction ivc known d fd = Inl x \<longrightarrow> x = CheckFailed ''param_name.has_value()'') \<and>
         (IsFromCurrentTarget ivc d \<and> \<not> fd_isDeleted fd \<and> \<not> fd_isTemplated fd \<and>
          \<not> parent_is_unknown known fd \<and> \<not> is_non_public_method fd \<and>
          collected_errors known fd = [] \<and> GetTranslatedName (fd_named fd) = Some nm \<and>
          (\<forall>p \<in> set (fd_params fd). GetTranslatedIdentifier (pv_named p) \<noteq> None) \<longrightarrow>
            (\<exists>f params0 formals.
               ImportFunction ivc known d fd = Inr (LookupResult_item (FuncItem f)) \<and>
               func_name f = nm \<and> func_lifetime_params f = [] \<and> signature_lifetimes f = [] \<and>
               ConvertType known (fd_return_type fd) None True = Inr (Ok (func_return_type f)) \<and>
               func_params f = params0 @ formals \<and>
               list_all2 (\<lambda>p fp. formal_param_of known (p, None) fp) (fd_params fd) formals \<and>
               (if is_instance_method fd then
                  (\<exists>md t. fd_method fd = Some md \<and>
                     ConvertType known (md_this_type md) None False = Inr (Ok t) \<and>
                     params0 = [\<lparr>fp_type = t, fp_identifier = ''__this''\<rparr>])
                else params0 = []))) \<and>
         (ImportFunction ivc known d fd = Inr result \<and> item result = Some (FuncItem f') \<longrightarrow>
            func_lifetime_params f' = [] \<and> signature_lifetimes f' = []) \<and>
         (ImportFunction ivc known d
            (fd\<lparr>fd_lifetimes := Some l, fd_lifetime_symbol_table := tab\<rparr>) = Inr r \<longrightarrow>
            ImportFunction ivc known d fd = Inr (erase_result r))"
proof -
  have same: "fd\<lparr>fd_lifetimes := None\<rparr> = fd"
    using assms by simp
  have same': "fd\<lparr>fd_lifetimes := Some l, fd_lifetime_symbol_table := tab\<rparr>
                 \<lparr>fd_lifetimes := None\<rparr> = fd\<lparr>fd_lifetime_symbol_table := tab\<rparr>"
    using assms by simp
  have a: "ImportFunction ivc known d
            (fd\<lparr>fd_lifetimes := Some l, fd_lifetime_symbol_table := tab\<rparr>) = Inr r \<longrightarrow>
            ImportFunction ivc known d fd = Inr (erase_result r)"
    using ImportFunction_erase [of ivc known d
        "fd\<lparr>fd_lifetimes := Some l, fd_lifetime_symbol_table := tab\<rparr>" r]
      ImportFunction_symbol_table [OF assms, of ivc known d tab]
    unfolding same' by simp
  have b: "func_lifetime_params g = [] \<and> signature_lifetimes g = []"
    if h: "ImportFunction ivc known d fd = Inr res" "item res = Some (FuncItem g)" for res g
  proof -
    from ImportFunction_erase [OF h(1)] h(1)
    have "erase_result res = res" unfolding same by simp
    with h(2) have "erase_func g = g"
      by (cases res) (auto simp: erase_result_def)
    then show ?thesis
      by (metis signature_lifetimes_erase erase_func_def Func.select_convs(7)
          Func.update_convs(5,6,7) Func.surjective)
  qed
  have c: "ImportFunction ivc known d fd = Inl x \<longrightarrow> x = CheckFailed ''param_name.has_value()''"
    using assms ImportFunction_signature_None_fatal [of fd ivc known d x]
    by (auto simp: ImportFunction_def split: if_splits)
  have t: "(\<forall>p \<in> set (fd_params fd). GetTranslatedIdentifier (pv_named p) \<noteq> None) \<longrightarrow>
            (\<exists>result. ImportFunction ivc known d fd = Inr result)"
    using ImportFunction_None_returns [OF assms] by blast
  have i: "\<exists>f params0 formals.
               ImportFunction ivc known d fd = Inr (LookupResult_item (FuncItem f)) \<and>
               func_name f = nm \<and> func_lifetime_params f = [] \<and> signature_lifetimes f = [] \<and>
               ConvertType known (fd_return_type fd) None True = Inr (Ok (func_return_type f)) \<and>
               func_params f = params0 @ formals \<and>
               list_all2 (\<lambda>p fp. formal_param_of known (p, None) fp) (fd_params fd) formals \<and>
               (if is_instance_method fd then
                  (\<exists>md t. fd_method fd = Some md \<and>
                     ConvertType known (md_this_type md) None False = Inr (Ok t) \<and>
                     params0 = [\<lparr>fp_type = t, fp_identifier = ''__this''\<rparr>])
                else params0 = [])"
    if g: "IsFromCurrentTarget ivc d" "\<not> fd_isDeleted fd" "\<not> fd_isTemplated fd"
      "\<not> parent_is_unknown known fd"
      and pub: "\<not> is_non_public_method fd"
      and ne: "collected_errors known fd = []"
      and name: "GetTranslatedName (fd_named fd) = Some nm"
      and names: "\<forall>p \<in> set (fd_params fd). GetTranslatedIdentifier (pv_named p) \<noteq> None"
  proof -
    from ImportFunction_None_returns [OF assms names] obtain res where
      res: "ImportFunction ivc known d fd = Inr res" by blast
    with g have sig: "ImportFunction_signature ivc known d fd = Inr res"
      by (simp add: ImportFunction_def)
    from ImportFunction_signature_Inr [OF sig] pub ne name obtain g' where
      r: "res = LookupResult_item (FuncItem g')" and n: "func_name g' = nm"
      by auto
    have it: "item res = Some (FuncItem g')"
      using r by (simp add: LookupResult_item_def)
    from ImportFunction_Func [OF res it] obtain params0 formals where
      th: "import_implicit_this known fd = Inr (params0, [])"
      and p: "func_params g' = params0 @ formals"
      and fo: "list_all2 (formal_param_of known) (formal_slots fd) formals"
      and rt: "ConvertType known (fd_return_type fd)
                 (map_option return_lifetimes (fd_lifetimes fd)) True =
               Inr (Ok (func_return_type g'))"
      by blast
    from fo assms have fo': "list_all2 (\<lambda>p fp. formal_param_of known (p, None) fp)
        (fd_params fd) formals"
      by (simp add: formal_slots_def param_lifetime_slots_def formals_without_lifetimes)
    from import_implicit_this_instance [OF th] assms have
      ti: "if is_instance_method fd then
                  (\<exists>md t. fd_method fd = Some md \<and>
                     ConvertType known (md_this_type md) None False = Inr (Ok t) \<and>
                     params0 = [\<lparr>fp_type = t, fp_identifier = ''__this''\<rparr>])
                else params0 = []"
      by (cases "is_instance_method fd") auto
    from b [OF res it] have l0: "func_lifetime_params g' = []" "signature_lifetimes g' = []"
      by simp_all
    from rt assms have rt': "ConvertType known (fd_return_type fd) None True =
        Inr (Ok (func_return_type g'))"
      by simp
    from res r have e: "ImportFunction ivc known d fd = Inr (LookupResult_item (FuncItem g'))"
      by simp
    from e n l0 rt' p fo' ti show ?thesis by blast
  qed
  from a b c t i show ?thesis by blast
qed

lemma ex_return_pointer_errors: "collected_errors {} ex_return_pointer = []"
  by (simp add: ex_return_pointer_def ex_int_ptr_def ex_defs type_mapper_defs
      function_importer_defs function_wording_defs)

text \<open>
  A witness: \<^verbatim>\<open>int* return_pointer(int* p)\<close> with a failure of the oracle is emitted
  as a \<open>Func\<close> whose pointers have no lifetime and whose lifetime parameters are empty.
\<close>

theorem ImportFunction_oracle_failure_witness:
  "fd_lifetimes ex_return_pointer = None \<and>
   ImportFunction ex_invocation {} (ex_common 18 TranslationUnitContext 7 7)
     ex_return_pointer = Inr (LookupResult_item (FuncItem ex_return_pointer_func)) \<and>
   func_lifetime_params ex_return_pointer_func = [] \<and>
   func_return_type ex_return_pointer_func =
     PointerType (SimpleType ''i32'' ''int'' False) None True False"
proof -
  let ?d = "ex_common 18 TranslationUnitContext 7 7"
  have n: "fd_lifetimes ex_return_pointer = None"
    by (simp add: ex_return_pointer_def)
  have g: "IsFromCurrentTarget ex_invocation ?d" "\<not> fd_isDeleted ex_return_pointer"
    "\<not> fd_isTemplated ex_return_pointer" "\<not> parent_is_unknown {} ex_return_pointer"
    "\<not> is_non_public_method ex_return_pointer"
    "GetTranslatedName (fd_named ex_return_pointer) = Some (Ident ''return_pointer'')"
    "\<forall>p \<in> set (fd_params ex_return_pointer). GetTranslatedIdentifier (pv_named p) \<noteq> None"
    by (simp_all add: ex_return_pointer_def ex_defs function_importer_defs type_mapper_defs)
  from ImportFunction_oracle_failure [OF n, of ex_invocation "{}" ?d _ "Ident ''return_pointer''"]
    g ex_return_pointer_errors
  obtain f where
    f: "ImportFunction ex_invocation {} ?d ex_return_pointer = Inr (LookupResult_item (FuncItem f))"
    and l: "func_lifetime_params f = []"
    by blast
  have e: "ImportFunction ex_invocation {} ?d ex_return_pointer =
      Inr (LookupResult_item (FuncItem ex_return_pointer_func))"
    by (simp add: ex_return_pointer_def ex_return_pointer_func_def ex_int_ptr_def ex_defs
        type_mapper_defs function_importer_defs)
  from f l e n show ?thesis
    by (simp add: ex_return_pointer_func_def)
qed

subsection \<open>Record import and the known type declarations\<close>
















subsection \<open>The order of the emitted items\<close>









lemma ex_template_lookup:
  "LookupDecl ivc ex_template_node new_importer =
     Inr (LookupResult_error ''Class templates are not supported yet'',
          \<lparr>lookup_cache = [(ex_template_node,
              LookupResult_error ''Class templates are not supported yet'')],
           known_type_decls = {}\<rparr>)"
  by (simp add: LookupDecl.simps ImportDecl.simps walker_defs ex_node_defs ex_common_def
      isNamespace_def)






subsection \<open>Memoized lookups\<close>

lemma cache_extends_refl [simp]: "cache_extends c c"
  by (simp add: cache_extends_def)

lemma cache_extends_trans: "cache_extends a b \<Longrightarrow> cache_extends b c \<Longrightarrow> cache_extends a c"
  by (simp add: cache_extends_def)

lemma cache_extends_insert: "cache_extends c (cache_insert d r c)"
  by (auto simp: cache_extends_def cache_insert_def cache_find_append)

lemma cache_find_insert:
  "cache_find (cache_insert d r c) (decl_addr d) =
     (case cache_find c (decl_addr d) of Some r' \<Rightarrow> Some r' | None \<Rightarrow> Some r)"
  by (auto simp: cache_insert_def cache_contains_def cache_find_append split: option.splits)

lemma walker_cache_extends:
  "(\<forall>r st'. LookupDecl ivc d st = Inr (r, st') \<longrightarrow>
      cache_extends (lookup_cache st) (lookup_cache st'))"
  "(\<forall>r st'. ImportDecl ivc d st = Inr (r, st') \<longrightarrow>
      cache_extends (lookup_cache st) (lookup_cache st'))"
  "(\<forall>st'. ImportDeclsFromDeclContext ivc ds st = Inr st' \<longrightarrow>
      cache_extends (lookup_cache st) (lookup_cache st'))"
proof (induction ivc d st and ivc d st and ivc ds st
    rule: LookupDecl_ImportDecl_ImportDeclsFromDeclContext.induct)
  case (1 ivc d st)
  show ?case
  proof (intro allI impI)
    fix r st'
    assume a: "LookupDecl ivc d st = Inr (r, st')"
    show "cache_extends (lookup_cache st) (lookup_cache st')"
    proof (cases "cache_contains (lookup_cache st) d")
      case True
      with a show ?thesis by (simp add: LookupDecl.simps)
    next
      case False
      with a obtain r0 st0 where i: "ImportDecl ivc d st = Inr (r0, st0)"
        and s: "lookup_cache st' = cache_insert d r0 (lookup_cache st0)"
        by (auto simp: LookupDecl.simps Let_def split: sum.splits)
      from 1 [OF False] i have "cache_extends (lookup_cache st) (lookup_cache st0)" by blast
      with s show ?thesis
        using cache_extends_insert cache_extends_trans by metis
    qed
  qed
next
  case (2 ivc d st)
  show ?case
  proof (intro allI impI)
    fix r st'
    assume a: "ImportDecl ivc d st = Inr (r, st')"
    show "cache_extends (lookup_cache st) (lookup_cache st')"
    proof (cases "kind d")
      case (RecordDecl record_decl)
      with a obtain decl_context result known st1 where
        c: "dc_decl_context (common d) = Some decl_context"
        and n: "isNamespace decl_context \<or>
            (ImportRecord ivc decl_context record_decl (known_type_decls st) = Inr (result, known) \<and>
             ImportDeclsFromDeclContext ivc (decls d) (st\<lparr>known_type_decls := known\<rparr>) = Inr st' )"
        and n': "isNamespace decl_context \<longrightarrow> st' = st"
        by (auto simp: ImportDecl.simps split: option.splits if_splits sum.splits)
      show ?thesis
      proof (cases "isNamespace decl_context")
        case True
        with n' show ?thesis by simp
      next
        case False
        with n have ir: "ImportRecord ivc decl_context record_decl (known_type_decls st) =
            Inr (result, known)"
          and id: "ImportDeclsFromDeclContext ivc (decls d) (st\<lparr>known_type_decls := known\<rparr>) =
            Inr st'" by simp_all
        from 2 [OF c False RecordDecl ir refl] id show ?thesis by simp
      qed
    qed (use a in \<open>auto simp: ImportDecl.simps split: option.splits if_splits sum.splits\<close>)
  qed
next
  case (3 ivc st)
  show ?case by simp
next
  case (4 ivc d ds st)
  show ?case
  proof (intro allI impI)
    fix st'
    assume a: "ImportDeclsFromDeclContext ivc (d # ds) st = Inr st'"
    then obtain r st1 where l: "LookupDecl ivc (getCanonicalDecl d) st = Inr (r, st1)"
      by (auto split: sum.splits)
    from a l obtain st2 where
      n: "(if kind d = NamespaceDecl then ImportDeclsFromDeclContext ivc (decls d) st1
           else Inr st1) = Inr st2"
      and rest: "ImportDeclsFromDeclContext ivc ds st2 = Inr st'"
      by (auto split: sum.splits)
    from 4(1) l have e1: "cache_extends (lookup_cache st) (lookup_cache st1)" by blast
    have e2: "cache_extends (lookup_cache st1) (lookup_cache st2)"
    proof (cases "kind d = NamespaceDecl")
      case True
      with n 4(2) [OF l refl True] show ?thesis by simp
    next
      case False
      with n show ?thesis by simp
    qed
    from 4(3) [OF l refl n] rest have e3: "cache_extends (lookup_cache st2) (lookup_cache st')"
      by blast
    from e1 e2 e3 show "cache_extends (lookup_cache st) (lookup_cache st')"
      using cache_extends_trans by blast
  qed
qed


lemma LookupDecl_stored:
  assumes "LookupDecl ivc d st = Inr (r, st1)"
  shows "cache_find (lookup_cache st1) (decl_addr d) = Some r"
proof (cases "cache_contains (lookup_cache st) d")
  case True
  with assms show ?thesis
    by (auto simp: LookupDecl.simps cache_contains_def cache_at_def)
next
  case False
  with assms obtain r0 st0 where i: "ImportDecl ivc d st = Inr (r0, st0)"
    by (auto simp: LookupDecl.simps Let_def split: sum.splits)
  with assms False have
    s: "lookup_cache st1 = cache_insert d r0 (lookup_cache st0)"
    and r: "r = cache_at (cache_insert d r0 (lookup_cache st0)) d"
    by (auto simp: LookupDecl.simps Let_def)
  then show ?thesis
    by (simp add: cache_at_def cache_find_insert split: option.splits)
qed

lemma LookupDecl_cached:
  assumes "cache_find (lookup_cache st) (decl_addr d) = Some r"
  shows "LookupDecl ivc d st = Inr (r, st)"
  using assms by (simp add: LookupDecl.simps cache_contains_def cache_at_def)

lemma lookup_all_cache_extends:
  "lookup_all ivc ds st = Inr st' \<Longrightarrow> cache_extends (lookup_cache st) (lookup_cache st')"
proof (induction ds arbitrary: st)
  case Nil
  then show ?case by simp
next
  case (Cons d ds)
  from Cons.prems obtain r st1 where l: "LookupDecl ivc d st = Inr (r, st1)"
    and rest: "lookup_all ivc ds st1 = Inr st'"
    by (auto split: sum.splits)
  from walker_cache_extends(1) [of ivc d st] l
  have "cache_extends (lookup_cache st) (lookup_cache st1)" by blast
  with Cons.IH [OF rest] show ?case using cache_extends_trans by blast
qed

text \<open>
  C2: a lookup stores its result in the cache under the address of the declaration, and
  after any number of further lookups a lookup of a declaration with the same address
  returns exactly that result and changes nothing. The first lookup of a declaration
  imports it: the state afterwards is the state after \<^verbatim>\<open>ImportDecl\<close> with the result
  inserted into the cache, and that result is returned.
\<close>

theorem LookupDecl_memoized:
  assumes "LookupDecl ivc d st = Inr (r, st1)"
    and "lookup_all ivc ds st1 = Inr st2"
    and "decl_addr d' = decl_addr d"
  shows "cache_find (lookup_cache st1) (decl_addr d) = Some r \<and>
         LookupDecl ivc d' st2 = Inr (r, st2) \<and>
         (\<not> cache_contains (lookup_cache st) d \<longrightarrow>
            (\<exists>r0 st0. ImportDecl ivc d st = Inr (r0, st0) \<and>
               st1 = st0\<lparr>lookup_cache := cache_insert d r0 (lookup_cache st0)\<rparr> \<and>
               (\<not> cache_contains (lookup_cache st0) d \<longrightarrow> r = r0)))"
proof -
  have stored: "cache_find (lookup_cache st1) (decl_addr d) = Some r"
    using assms(1) by (rule LookupDecl_stored)
  from lookup_all_cache_extends [OF assms(2)] stored assms(3)
  have "cache_find (lookup_cache st2) (decl_addr d') = Some r"
    by (simp add: cache_extends_def)
  then have again: "LookupDecl ivc d' st2 = Inr (r, st2)"
    by (rule LookupDecl_cached)
  have first: "\<exists>r0 st0. ImportDecl ivc d st = Inr (r0, st0) \<and>
               st1 = st0\<lparr>lookup_cache := cache_insert d r0 (lookup_cache st0)\<rparr> \<and>
               (\<not> cache_contains (lookup_cache st0) d \<longrightarrow> r = r0)"
    if n: "\<not> cache_contains (lookup_cache st) d"
  proof -
    from assms(1) n obtain r0 st0 where i: "ImportDecl ivc d st = Inr (r0, st0)"
      by (auto simp: LookupDecl.simps Let_def split: sum.splits)
    with assms(1) n have
      s: "st1 = st0\<lparr>lookup_cache := cache_insert d r0 (lookup_cache st0)\<rparr>"
      and r: "r = cache_at (cache_insert d r0 (lookup_cache st0)) d"
      by (auto simp: LookupDecl.simps Let_def)
    have "r = r0" if "\<not> cache_contains (lookup_cache st0) d"
      using that r
      by (simp add: cache_at_def cache_find_insert cache_contains_def split: option.splits)
    with i s show ?thesis by blast
  qed
  from stored again first show ?thesis by blast
qed


lemma ex_S_lookup:
  "LookupDecl ex_invocation ex_S_node new_importer =
     Inr (LookupResult_item (RecordItem ex_S_record),
          \<lparr>lookup_cache = tl ex_cache, known_type_decls = {10}\<rparr>)"
  by (simp add: LookupDecl.simps ImportDecl.simps walker_defs ex_all_defs
      type_mapper_defs record_importer_defs function_importer_defs)

lemma ex_lookups_between:
  "lookup_all ex_invocation [ex_method_node, ex_template_node]
     \<lparr>lookup_cache = tl ex_cache, known_type_decls = {10}\<rparr> =
     Inr \<lparr>lookup_cache = tl ex_cache @ [hd ex_cache], known_type_decls = {10}\<rparr>"
  by (simp add: LookupDecl.simps ImportDecl.simps walker_defs ex_all_defs
      type_mapper_defs record_importer_defs function_importer_defs)

text \<open>
  A witness: the struct \<open>S\<close> is looked up in a new importer, which imports it and its
  method; then the method and a class template are looked up; then a lookup of \<open>S\<close>
  returns the same \<open>Record\<close> item and leaves the state as it is.
\<close>

theorem LookupDecl_memoized_witness:
  "LookupDecl ex_invocation ex_S_node new_importer =
     Inr (LookupResult_item (RecordItem ex_S_record),
          \<lparr>lookup_cache = tl ex_cache, known_type_decls = {10}\<rparr>) \<and>
   lookup_all ex_invocation [ex_method_node, ex_template_node]
     \<lparr>lookup_cache = tl ex_cache, known_type_decls = {10}\<rparr> =
     Inr \<lparr>lookup_cache = tl ex_cache @ [hd ex_cache], known_type_decls = {10}\<rparr> \<and>
   LookupDecl ex_invocation ex_S_node
     \<lparr>lookup_cache = tl ex_cache @ [hd ex_cache], known_type_decls = {10}\<rparr> =
     Inr (LookupResult_item (RecordItem ex_S_record),
          \<lparr>lookup_cache = tl ex_cache @ [hd ex_cache], known_type_decls = {10}\<rparr>)"
  using LookupDecl_memoized [OF ex_S_lookup ex_lookups_between refl] ex_S_lookup
    ex_lookups_between
  by blast

end
